theory Spec2Isabelle
  imports Complex_Main
begin

section \<open>Python values shared by the modules\<close>

text \<open>
  Exceptions are values. Only the classes that the modelled functions can raise are listed.
\<close>

datatype py_error =
    UnboundLocalError
  | ValueError
  | AttributeError
  | ZeroDivisionError
  | TypeError
  | OperationalError
  | OSError

text \<open>
  Text is a list of characters, each a code point below 256. \<open>isspace\<close> is Python's
  \<open>str.isspace\<close> on that range, which is also what \<open>\s\<close> matches and what
  \<open>strip()\<close> and \<open>split()\<close> remove.
\<close>

definition isspace :: "char \<Rightarrow> bool" where
  "isspace c \<longleftrightarrow> c \<in> set [CHR 0x09, CHR 0x0A, CHR 0x0B, CHR 0x0C, CHR 0x0D,
                              CHR 0x1C, CHR 0x1D, CHR 0x1E, CHR 0x1F, CHR 0x20, CHR 0x85, CHR 0xA0]"

definition strip :: "string \<Rightarrow> string" where
  "strip s = rev (dropWhile isspace (rev (dropWhile isspace s)))"

text \<open>\<open>re.sub(r'\s+', ' ', s)\<close>: every maximal run of whitespace becomes one space.\<close>

fun sub_ws :: "bool \<Rightarrow> string \<Rightarrow> string" where
  "sub_ws in_run [] = []"
| "sub_ws in_run (c # cs) =
     (if isspace c then (if in_run then sub_ws True cs else CHR 0x20 # sub_ws True cs)
      else c # sub_ws False cs)"

definition normalize_ws :: "string \<Rightarrow> string" where
  "normalize_ws content = sub_ws False (strip content)"

text \<open>\<open>s.split()\<close>: the maximal runs of non-whitespace, in order.\<close>

fun split_from :: "string \<Rightarrow> string \<Rightarrow> string list" where
  "split_from w [] = (if w = [] then [] else [rev w])"
| "split_from w (c # cs) =
     (if isspace c then (if w = [] then split_from [] cs else rev w # split_from [] cs)
      else split_from (c # w) cs)"

definition py_split :: "string \<Rightarrow> string list" where
  "py_split s = split_from [] s"

text \<open>\<open>s.split('\n')\<close>: the pieces between line feeds; never empty.\<close>

fun split_lines_from :: "string \<Rightarrow> string \<Rightarrow> string list" where
  "split_lines_from w [] = [rev w]"
| "split_lines_from w (c # cs) =
     (if c = CHR 0x0A then rev w # split_lines_from [] cs else split_lines_from (c # w) cs)"

definition split_lines :: "string \<Rightarrow> string list" where
  "split_lines s = split_lines_from [] s"

definition lower_char :: "char \<Rightarrow> char" where
  "lower_char c =
     (let n = (of_char c :: nat)
      in if (65 \<le> n \<and> n \<le> 90) \<or> (192 \<le> n \<and> n \<le> 222 \<and> n \<noteq> 215)
         then char_of (n + 32) else c)"

definition lower :: "string \<Rightarrow> string" where
  "lower s = map lower_char s"

definition startswith :: "string \<Rightarrow> string \<Rightarrow> bool" where
  "startswith s p \<longleftrightarrow> take (length p) s = p"

text \<open>\<open>p in s\<close> for two strings: \<open>p\<close> occurs in \<open>s\<close> as a contiguous piece.\<close>

fun py_in :: "string \<Rightarrow> string \<Rightarrow> bool" where
  "py_in p [] \<longleftrightarrow> p = []"
| "py_in p (c # cs) \<longleftrightarrow> startswith (c # cs) p \<or> py_in p cs"

text \<open>
  A Python \<open>dict\<close> keeps its keys in insertion order; assigning to a key that is
  present replaces the value where it stands.
\<close>

fun dict_set :: "'k \<Rightarrow> 'v \<Rightarrow> ('k \<times> 'v) list \<Rightarrow> ('k \<times> 'v) list" where
  "dict_set k v [] = [(k, v)]"
| "dict_set k v ((k', v') # d) = (if k' = k then (k, v) # d else (k', v') # dict_set k v d)"

fun dict_get :: "('k \<times> 'v) list \<Rightarrow> 'k \<Rightarrow> 'v option" where
  "dict_get [] k = None"
| "dict_get ((k', v') # d) k = (if k' = k then Some v' else dict_get d k)"

text \<open>Decimal rendering of an integer, as an f-string prints it.\<close>

function str_nat :: "nat \<Rightarrow> string" where
  "str_nat n = (if n < 10 then [char_of (48 + n)]
                else str_nat (n div 10) @ [char_of (48 + n mod 10)])"
  by pat_completeness auto
termination
  by (relation "measure id") auto

declare str_nat.simps [simp del]

definition str_int :: "int \<Rightarrow> string" where
  "str_int i = (if i < 0 then CHR ''-'' # str_nat (nat (- i)) else str_nat (nat i))"


section \<open>Python floats\<close>

text \<open>
  A Python \<open>float\<close> is an IEEE 754 binary64 number. A finite float is modelled by the
  rational number it denotes. \<open>fl x\<close> is the float nearest to the rational \<open>x\<close>, a tie
  going to the even significand: \<open>normalise\<close> writes \<open>\<bar>x\<bar>\<close> as \<open>m * 2 ^ e\<close> with
  \<open>2 ^ 52 \<le> m < 2 ^ 53\<close>, or with \<open>e = - 1074\<close> and \<open>m < 2 ^ 52\<close> in the subnormal range,
  and \<open>m\<close> is rounded to an integer. The values that the modelled code computes lie between
  0 and 5, so the overflow to infinity above \<open>2 ^ 1024\<close> is not modelled.
\<close>

definition round_half_even :: "rat \<Rightarrow> int" where
  "round_half_even x =
     (let n = \<lfloor>x\<rfloor>; r = x - of_int n
      in if r < 1 / 2 then n else if 1 / 2 < r then n + 1 else if even n then n else n + 1)"

function scale_down :: "rat \<Rightarrow> int \<Rightarrow> rat \<times> int" where
  "scale_down m e = (if 2 ^ 53 \<le> m then scale_down (m / 2) (e + 1) else (m, e))"
  by pat_completeness auto
termination
proof (relation "measure (\<lambda>(m, e). nat \<lfloor>m\<rfloor>)")
  show "wf (measure (\<lambda>(m, e). nat \<lfloor>m\<rfloor>))" by simp
next
  fix m :: rat and e :: int
  assume big: "2 ^ 53 \<le> m"
  then have "m / 2 \<le> m - 1" by simp
  then have "\<lfloor>m / 2\<rfloor> \<le> \<lfloor>m - 1\<rfloor>" by (rule floor_mono)
  then have "\<lfloor>m / 2\<rfloor> < \<lfloor>m\<rfloor>" by simp
  moreover have "0 < \<lfloor>m\<rfloor>" using big by simp
  ultimately show "((m / 2, e + 1), (m, e)) \<in> measure (\<lambda>(m, e). nat \<lfloor>m\<rfloor>)"
    by simp
qed

function scale_up :: "rat \<Rightarrow> int \<Rightarrow> rat \<times> int" where
  "scale_up m e = (if m < 2 ^ 52 \<and> - 1074 < e then scale_up (m * 2) (e - 1) else (m, e))"
  by pat_completeness auto
termination
  by (relation "measure (\<lambda>(m, e). nat (e + 1074))") auto

declare scale_down.simps [simp del] scale_up.simps [simp del]

definition pow2 :: "int \<Rightarrow> rat" where
  "pow2 e = (if 0 \<le> e then 2 ^ nat e else 1 / 2 ^ nat (- e))"

definition normalise :: "rat \<Rightarrow> rat \<times> int" where
  "normalise x = (case scale_down x 0 of (m, e) \<Rightarrow> scale_up m e)"

definition fl :: "rat \<Rightarrow> rat" where
  "fl x =
     (if x = 0 then 0
      else (case normalise \<bar>x\<bar> of (m, e) \<Rightarrow> sgn x * of_int (round_half_even m) * pow2 e))"

text \<open>
  The operations \<open>+\<close>, \<open>*\<close> and \<open>/\<close> on floats give the float nearest to the exact
  result. \<open>fdiv\<close> is also the true division of two \<open>int\<close>s, which Python rounds
  correctly, and the division of a float by an \<open>int\<close>: the \<open>int\<close>s of the modelled code
  are lengths and counts, which are floats themselves. A divisor 0 raises in the source
  and is tested before \<open>fdiv\<close> is used. A decimal literal is the float nearest to the
  number written: \<open>tenths 4\<close> is the literal \<open>0.4\<close>, the float nearest to \<open>4 / 10\<close>.
\<close>

definition tenths :: "int \<Rightarrow> rat" where
  "tenths digit = fl (of_int digit / 10)"

definition fadd :: "rat \<Rightarrow> rat \<Rightarrow> rat" where
  "fadd a b = fl (a + b)"

definition fmul :: "rat \<Rightarrow> rat \<Rightarrow> rat" where
  "fmul a b = fl (a * b)"

definition fdiv :: "rat \<Rightarrow> rat \<Rightarrow> rat" where
  "fdiv a b = fl (a / b)"


section \<open>The reference collection\<close>

text \<open>
  A row of the \<open>reference\<close> table, with the columns of the schema in
  \<open>migrate-database.py\<close> that the modelled statements read or write. The table is keyed
  by \<open>id\<close>. A store whose \<open>reference\<close> table has not been created is \<open>None\<close>.
\<close>

record reference_row =
  r_id :: string
  r_title :: string
  r_content :: string
  r_folder_path :: string
  r_doc_type :: string
  r_library :: string
  r_file_path :: string
  r_word_count :: nat
  r_summary :: string
  r_tags :: string

type_synonym reference_table = "reference_row list option"


section \<open>duplicate\_detector.py\<close>

record new_file =
  nf_path :: string
  nf_relative_path :: string
  nf_size :: nat
  nf_word_count :: nat
  nf_hash :: string
  nf_title :: string
  nf_tags :: "string list"
  nf_content_preview :: string

record duplicate =
  dup_new_file :: string
  dup_existing_title :: "string \<times> string"
  dup_existing_library :: string
  dup_existing_path :: string
  dup_match_type :: string

text \<open>
  Scores are Python floats in the source, and a score is modelled by the rational that the
  float denotes. The overlap score is computed with the float operations \<open>fadd\<close>,
  \<open>fmul\<close> and \<open>fdiv\<close>, and tested against the float 0.3. For a float \<open>s\<close> the test
  \<open>s > 0.7\<close> agrees with the exact comparison against 7/10, because the float nearest to
  0.7 lies below it and no float lies between the two. The uniqueness percentage is
  computed exactly in the model and rounded in the source.
\<close>

record overlap =
  o_new_file :: string
  o_existing_library :: string
  o_overlap_score :: rat
  o_common_tags :: "string list"

record uniqueness =
  u_total_files :: nat
  u_excluded_files :: nat
  u_unique_files :: nat
  u_uniqueness_percentage :: rat

datatype recommendation =
    SkipExactDuplicates nat
  | ReviewHighOverlap nat
  | UpdateVersions nat
  | ImportUnique nat rat
  | LowUniqueness
  | HighUniqueness
  | ModerateUniqueness

record version_conflict =
  vc_new_file :: string
  vc_existing_title :: string
  vc_old_version :: string
  vc_new_version :: string

record analysis =
  a_total_files :: nat
  a_exact_duplicates :: "duplicate list"
  a_topic_overlaps :: "overlap list"
  a_library_conflicts :: "string list"
  a_version_conflicts :: "version_conflict list"
  a_new_unique_content :: uniqueness
  a_recommendations :: "recommendation list"
  a_library_name :: string

subsection \<open>\_calculate\_unique\_content\<close>

definition excluded_files :: "analysis \<Rightarrow> string set" where
  "excluded_files a =
     set (map dup_new_file (a_exact_duplicates a))
     \<union> set (map o_new_file (filter (\<lambda>ov. o_overlap_score ov > 7 / 10) (a_topic_overlaps a)))"

definition calculate_unique_content :: "new_file list \<Rightarrow> analysis \<Rightarrow> uniqueness" where
  "calculate_unique_content new_files a =
     (let excluded = excluded_files a;
          unique_files = filter (\<lambda>f. nf_relative_path f \<notin> excluded) new_files
      in \<lparr> u_total_files = length new_files,
           u_excluded_files = card excluded,
           u_unique_files = length unique_files,
           u_uniqueness_percentage =
             (if new_files \<noteq> []
              then (of_nat (length unique_files) / of_nat (length new_files)) * 100
              else 0) \<rparr>)"



subsection \<open>\_get\_document\_files\<close>

text \<open>
  The file system as the module sees it: \<open>md_files root\<close> is what
  \<open>Path(root).rglob("*.md")\<close> yields, as pairs of a path and the path relative to the
  root, or \<open>None\<close> when the root does not exist; \<open>read_text p\<close> is the content of
  \<open>p\<close>, or \<open>None\<close> when opening or decoding it raises.
\<close>

record filesystem =
  md_files :: "string \<Rightarrow> (string \<times> string) list option"
  read_text :: "string \<Rightarrow> string option"

definition extract_title :: "string \<Rightarrow> string" where
  "extract_title content =
     (case filter (\<lambda>line. startswith line ''# '') (map strip (take 10 (split_lines content))) of
        [] \<Rightarrow> ''Untitled''
      | line # _ \<Rightarrow> strip (drop 2 line))"

definition tech_tags :: "string list" where
  "tech_tags = [''swift'', ''swiftui'', ''uikit'', ''combinable'', ''tca'', ''visionos'',
                ''arkit'', ''realitykit'', ''coredata'', ''cloudkit'', ''metal'', ''shareplay'',
                ''spatial persona'', ''systemcoordinator'']"

text \<open>
  The source returns \<open>list(tags)\<close> of a set, in no particular order; the model lists the
  tags in the order of \<open>tech_tags\<close>. Only the set and the length are used afterwards.
\<close>

definition extract_tags :: "string \<Rightarrow> string list" where
  "extract_tags content = filter (\<lambda>tag. py_in tag (lower content)) tech_tags"

text \<open>\<open>md5\<close> stands for \<open>hashlib.md5(s.encode()).hexdigest()\<close>.\<close>

definition calculate_content_hash :: "(string \<Rightarrow> string) \<Rightarrow> string \<Rightarrow> string" where
  "calculate_content_hash md5 content = take 16 (md5 (normalize_ws content))"

definition content_preview :: "string \<Rightarrow> string" where
  "content_preview content = take 500 content @ (if length content > 500 then ''...'' else [])"

definition document_entry ::
  "(string \<Rightarrow> string) \<Rightarrow> string \<Rightarrow> string \<Rightarrow> string \<Rightarrow> new_file" where
  "document_entry md5 p rel content =
     \<lparr> nf_path = p,
       nf_relative_path = rel,
       nf_size = length content,
       nf_word_count = length (py_split content),
       nf_hash = calculate_content_hash md5 content,
       nf_title = extract_title content,
       nf_tags = extract_tags content,
       nf_content_preview = content_preview content \<rparr>"

definition get_document_files ::
  "(string \<Rightarrow> string) \<Rightarrow> filesystem \<Rightarrow> string \<Rightarrow> new_file list" where
  "get_document_files md5 fs docs_path =
     (case md_files fs docs_path of
        None \<Rightarrow> []
      | Some entries \<Rightarrow>
          concat (map (\<lambda>(p, rel). case read_text fs p of
                                     None \<Rightarrow> []
                                   | Some content \<Rightarrow> [document_entry md5 p rel content])
                      entries))"

subsection \<open>\_find\_exact\_duplicates\<close>

text \<open>
  A row as \<open>fetchall()\<close> returns it: a tuple with one value for each selected column.
  Unpacking a tuple into three names raises \<open>ValueError\<close> unless it has three values.
\<close>

type_synonym sql_row = "string list"

definition select_title_content_folder_library :: "reference_table \<Rightarrow> py_error + sql_row list" where
  "select_title_content_folder_library tbl =
     (case tbl of
        None \<Rightarrow> Inl OperationalError
      | Some rows \<Rightarrow> Inr (map (\<lambda>r. [r_title r, r_content r, r_folder_path r, r_library r]) rows))"

fun unpack3 :: "'a list \<Rightarrow> py_error + ('a \<times> 'a \<times> 'a)" where
  "unpack3 [x, y, z] = Inr (x, y, z)"
| "unpack3 _ = Inl ValueError"

type_synonym content_dict = "((string \<times> string) \<times> sql_row) list"

text \<open>\<open>{(row[0], row[1]): row for row in cursor.fetchall()}\<close>\<close>

definition existing_content_dict :: "sql_row list \<Rightarrow> content_dict" where
  "existing_content_dict rows = foldl (\<lambda>d row. dict_set (row ! 0, row ! 1) row d) [] rows"

text \<open>
  The inner loop over \<open>existing_content.items()\<close>. It returns the duplicates collected so
  far and the exception that ended it, if one did.
\<close>

fun match_existing ::
  "new_file \<Rightarrow> string \<Rightarrow> content_dict \<Rightarrow> duplicate list \<Rightarrow> duplicate list \<times> py_error option" where
  "match_existing nf normalized_new [] duplicates = (duplicates, None)"
| "match_existing nf normalized_new ((existing_title, row) # items) duplicates =
     (case unpack3 row of
        Inl e \<Rightarrow> (duplicates, Some e)
      | Inr (existing_content, folder_path, library) \<Rightarrow>
          match_existing nf normalized_new items
            (if normalized_new = normalize_ws existing_content
             then duplicates @ [\<lparr> dup_new_file = nf_relative_path nf,
                                  dup_existing_title = existing_title,
                                  dup_existing_library = library,
                                  dup_existing_path = folder_path,
                                  dup_match_type = ''exact_content'' \<rparr>]
             else duplicates))"

text \<open>
  The loop target rebinds the name \<open>existing_content\<close>: once the inner loop has run over
  a non-empty dictionary the name holds a string, and \<open>.items()\<close> on it raises.
\<close>

definition rebound :: "content_dict \<Rightarrow> content_dict + string" where
  "rebound d = (case d of [] \<Rightarrow> Inl d | _ \<Rightarrow> Inr (hd (snd (last d))))"

fun scan_new_files ::
  "filesystem \<Rightarrow> content_dict + string \<Rightarrow> new_file list \<Rightarrow> duplicate list
     \<Rightarrow> duplicate list \<times> py_error option" where
  "scan_new_files fs existing [] duplicates = (duplicates, None)"
| "scan_new_files fs existing (nf # rest) duplicates =
     (case read_text fs (nf_path nf) of
        None \<Rightarrow> (duplicates, Some OSError)
      | Some content \<Rightarrow>
          (case existing of
             Inr _ \<Rightarrow> (duplicates, Some AttributeError)
           | Inl d \<Rightarrow>
               (case match_existing nf (normalize_ws content) d duplicates of
                  (duplicates', Some e) \<Rightarrow> (duplicates', Some e)
                | (duplicates', None) \<Rightarrow> scan_new_files fs (rebound d) rest duplicates')))"

text \<open>The \<open>try\<close> block; whatever is raised inside is printed and the list is returned.\<close>

definition find_exact_duplicates ::
  "filesystem \<Rightarrow> reference_table \<Rightarrow> new_file list \<Rightarrow> duplicate list" where
  "find_exact_duplicates fs tbl new_files =
     (case select_title_content_folder_library tbl of
        Inl e \<Rightarrow> []
      | Inr rows \<Rightarrow> fst (scan_new_files fs (Inl (existing_content_dict rows)) new_files []))"

subsection \<open>\_calculate\_overlap\_score and \_find\_topic\_overlaps\<close>

text \<open>\<open>SELECT DISTINCT\<close>: each value once, in the order of first occurrence.\<close>

fun first_occurrences :: "'a list \<Rightarrow> 'a list" where
  "first_occurrences [] = []"
| "first_occurrences (x # xs) = x # filter (\<lambda>y. y \<noteq> x) (first_occurrences xs)"

definition select_distinct_library :: "reference_table \<Rightarrow> py_error + string list" where
  "select_distinct_library tbl =
     (case tbl of
        None \<Rightarrow> Inl OperationalError
      | Some rows \<Rightarrow> Inr (first_occurrences (map r_library rows)))"

text \<open>\<open>SELECT content FROM reference WHERE library = ? LIMIT 5\<close>\<close>

definition library_samples :: "reference_row list \<Rightarrow> string \<Rightarrow> string list" where
  "library_samples rows lib = take 5 (map r_content (filter (\<lambda>r. r_library r = lib) rows))"

definition select_samples :: "reference_table \<Rightarrow> string \<Rightarrow> py_error + string list" where
  "select_samples tbl lib =
     (case tbl of None \<Rightarrow> Inl OperationalError | Some rows \<Rightarrow> Inr (library_samples rows lib))"

definition sample_tags :: "string list \<Rightarrow> string set" where
  "sample_tags samples = \<Union> (set (map (\<lambda>sample. set (extract_tags sample)) samples))"

definition word_set :: "string \<Rightarrow> string set" where
  "word_set s = set (py_split (lower s))"

text \<open>The body of the \<open>try\<close> block, once the samples have been fetched.\<close>

definition overlap_score_body :: "string list \<Rightarrow> string \<Rightarrow> string list \<Rightarrow> py_error + rat" where
  "overlap_score_body existing_samples content tags =
     (let existing_tags = sample_tags existing_samples;
          tag_overlap = card (set tags \<inter> existing_tags);
          score = (if length tags > 0
                   then fadd 0 (fmul (fdiv (of_nat tag_overlap) (of_nat (length tags)))
                                     (tenths 4))
                   else 0);
          content_overlap =
            sum_list (map (\<lambda>sample. card (word_set content \<inter> word_set sample)) existing_samples)
      in if length (py_split content) > 0
         then (if length existing_samples = 0 then Inl ZeroDivisionError
               else Inr (fadd score
                           (fmul (fdiv (fdiv (of_nat content_overlap)
                                             (of_nat (length (py_split content))))
                                       (of_nat (length existing_samples)))
                                 (tenths 6))))
         else Inr score)"

definition calculate_overlap_score ::
  "reference_table \<Rightarrow> string \<Rightarrow> string list \<Rightarrow> string \<Rightarrow> rat" where
  "calculate_overlap_score tbl content tags existing_lib =
     (case select_samples tbl existing_lib of
        Inl e \<Rightarrow> 0
      | Inr existing_samples \<Rightarrow>
          (case overlap_score_body existing_samples content tags of
             Inl e \<Rightarrow> 0
           | Inr score \<Rightarrow> score))"

text \<open>
  \<open>json_loads\<close> stands for \<open>json.loads\<close> on a \<open>tags\<close> column; \<open>None\<close> when it raises
  (the source then skips the row).
\<close>

definition find_common_tags ::
  "(string \<Rightarrow> string list option) \<Rightarrow> reference_table \<Rightarrow> string list \<Rightarrow> string \<Rightarrow> string list" where
  "find_common_tags json_loads tbl new_tags existing_lib =
     (case tbl of
        None \<Rightarrow> []
      | Some rows \<Rightarrow>
          (let columns = first_occurrences (map r_tags (filter (\<lambda>r. r_library r = existing_lib) rows));
               existing_tags = \<Union> (set (map (\<lambda>c. case json_loads c of None \<Rightarrow> {} | Some ts \<Rightarrow> set ts)
                                            columns))
           in filter (\<lambda>t. t \<in> existing_tags) (remdups new_tags)))"

definition overlap_entries ::
  "(string \<Rightarrow> string list option) \<Rightarrow> reference_table \<Rightarrow> string list \<Rightarrow> new_file \<Rightarrow> overlap list" where
  "overlap_entries json_loads tbl existing_libraries nf =
     concat (map (\<lambda>existing_lib.
                    let overlap_score =
                          calculate_overlap_score tbl (nf_content_preview nf) (nf_tags nf) existing_lib
                    in if overlap_score > tenths 3
                       then [\<lparr> o_new_file = nf_relative_path nf,
                               o_existing_library = existing_lib,
                               o_overlap_score = overlap_score,
                               o_common_tags = find_common_tags json_loads tbl (nf_tags nf) existing_lib \<rparr>]
                       else [])
                 existing_libraries)"

definition find_topic_overlaps ::
  "(string \<Rightarrow> string list option) \<Rightarrow> reference_table \<Rightarrow> new_file list \<Rightarrow> string \<Rightarrow> overlap list" where
  "find_topic_overlaps json_loads tbl new_files library_name =
     (case select_distinct_library tbl of
        Inl e \<Rightarrow> []
      | Inr existing_libraries \<Rightarrow>
          concat (map (overlap_entries json_loads tbl existing_libraries) new_files))"

definition find_library_conflicts :: "new_file list \<Rightarrow> string \<Rightarrow> string list" where
  "find_library_conflicts new_files library_name = []"

subsection \<open>\_generate\_recommendations and analyze\_content\<close>

text \<open>The messages are kept as constructors that carry the numbers printed in them.\<close>

definition generate_recommendations :: "analysis \<Rightarrow> recommendation list" where
  "generate_recommendations a =
     (let unique = a_new_unique_content a;
          high_overlap = filter (\<lambda>ov. o_overlap_score ov > 7 / 10) (a_topic_overlaps a)
      in (if a_exact_duplicates a \<noteq> []
          then [SkipExactDuplicates (length (a_exact_duplicates a))] else [])
         @ (if a_topic_overlaps a \<noteq> [] \<and> high_overlap \<noteq> []
            then [ReviewHighOverlap (length high_overlap)] else [])
         @ (if a_version_conflicts a \<noteq> []
            then [UpdateVersions (length (a_version_conflicts a))] else [])
         @ (if u_unique_files unique > 0
            then [ImportUnique (u_unique_files unique) (u_uniqueness_percentage unique)] else [])
         @ [if u_uniqueness_percentage unique < 50 then LowUniqueness
            else if u_uniqueness_percentage unique > 80 then HighUniqueness
            else ModerateUniqueness])"

text \<open>
  Reading a local name: a function's local that has not been assigned yet is unbound, and
  loading it raises \<open>UnboundLocalError\<close>.
\<close>

definition load_local :: "'a option \<Rightarrow> py_error + 'a" where
  "load_local v = (case v of None \<Rightarrow> Inl UnboundLocalError | Some x \<Rightarrow> Inr x)"

text \<open>
  \<open>analyze_content\<close> runs the four passes and then evaluates the dictionary display whose
  value is to be assigned to the local \<open>analysis\<close>. The display's entries are evaluated in
  order; the sixth and the seventh load \<open>analysis\<close> itself, which is bound only by the
  assignment that follows the display. The version-conflict pass (regular expressions over
  titles, with its own \<open>try\<close>) is the parameter \<open>find_version_conflicts\<close>.
\<close>

definition analyze_content ::
  "(string \<Rightarrow> string) \<Rightarrow> (string \<Rightarrow> string list option)
     \<Rightarrow> (new_file list \<Rightarrow> string \<Rightarrow> version_conflict list)
     \<Rightarrow> filesystem \<Rightarrow> reference_table \<Rightarrow> string \<Rightarrow> string \<Rightarrow> py_error + analysis" where
  "analyze_content md5 json_loads find_version_conflicts fs tbl docs_path library_name =
     (let new_files = get_document_files md5 fs docs_path;
          exact_duplicates = find_exact_duplicates fs tbl new_files;
          topic_overlaps = find_topic_overlaps json_loads tbl new_files library_name;
          library_conflicts = find_library_conflicts new_files library_name;
          version_conflicts = find_version_conflicts new_files library_name;
          analysis_local = (None :: analysis option)
      in case load_local analysis_local of
           Inl e \<Rightarrow> Inl e
         | Inr a6 \<Rightarrow>
             (case load_local analysis_local of
                Inl e \<Rightarrow> Inl e
              | Inr a7 \<Rightarrow>
                  Inr \<lparr> a_total_files = length new_files,
                        a_exact_duplicates = exact_duplicates,
                        a_topic_overlaps = topic_overlaps,
                        a_library_conflicts = library_conflicts,
                        a_version_conflicts = version_conflicts,
                        a_new_unique_content = calculate_unique_content new_files a6,
                        a_recommendations = generate_recommendations a7,
                        a_library_name = library_name \<rparr>))"

subsection \<open>The overlap score in the claim's words\<close>

text \<open>The fraction of the members of \<open>A\<close> that are also in \<open>B\<close>; 0 when \<open>A\<close> is empty.\<close>

definition fraction_present :: "'a set \<Rightarrow> 'a set \<Rightarrow> rat" where
  "fraction_present A B = (if A = {} then 0 else of_nat (card (A \<inter> B)) / of_nat (card A))"

definition average :: "rat list \<Rightarrow> rat" where
  "average xs = (if xs = [] then 0 else sum_list xs / of_nat (length xs))"

text \<open>
  As the claim words it: 0.4 times the fraction of the candidate's tags present among the
  sample's tags, plus 0.6 times the fraction of the candidate's content words present in a
  sample document, averaged over the sample documents.
\<close>

definition claimed_overlap_score :: "string list \<Rightarrow> string \<Rightarrow> string list \<Rightarrow> rat" where
  "claimed_overlap_score samples content tags =
     4 / 10 * fraction_present (set tags) (sample_tags samples)
     + 6 / 10 * average (map (\<lambda>sample. fraction_present (word_set content) (word_set sample)) samples)"

text \<open>
  As amended, in float arithmetic: the fraction of the candidate's tags found among the
  sample's tags; the word term, which is the number of distinct lower-cased words of the
  candidate text that occur in a sample document, summed over the sample documents,
  divided by the number of words of the candidate text counted with repetition and then by
  the number of sample documents; and the weighted sum of the two.
\<close>

definition tag_fraction :: "string list \<Rightarrow> string list \<Rightarrow> rat" where
  "tag_fraction tags samples =
     (if set tags = {} then 0
      else fdiv (of_nat (card (set tags \<inter> sample_tags samples))) (of_nat (card (set tags))))"

definition common_words :: "string \<Rightarrow> string \<Rightarrow> nat" where
  "common_words content sample = card (word_set content \<inter> word_set sample)"

definition word_term :: "string \<Rightarrow> string list \<Rightarrow> rat" where
  "word_term content samples =
     (if py_split content = [] \<or> samples = [] then 0
      else fdiv (fdiv (of_nat (sum_list (map (common_words content) samples)))
                      (of_nat (length (py_split content))))
                (of_nat (length samples)))"

definition amended_overlap_score :: "string list \<Rightarrow> string \<Rightarrow> string list \<Rightarrow> rat" where
  "amended_overlap_score samples content tags =
     fadd (fmul (tag_fraction tags samples) (tenths 4))
          (fmul (word_term content samples) (tenths 6))"


section \<open>Example inputs\<close>

definition ref_row :: "string \<Rightarrow> string \<Rightarrow> string \<Rightarrow> string \<Rightarrow> reference_row" where
  "ref_row i t c l =
     \<lparr> r_id = i, r_title = t, r_content = c, r_folder_path = ''root'', r_doc_type = ''documentation'',
       r_library = l, r_file_path = ''guide.md'', r_word_count = length (py_split c),
       r_summary = t, r_tags = ''[]'' \<rparr>"

definition no_md5 :: "string \<Rightarrow> string" where
  "no_md5 s = []"

definition no_json :: "string \<Rightarrow> string list option" where
  "no_json s = None"

definition no_version_conflicts :: "new_file list \<Rightarrow> string \<Rightarrow> version_conflict list" where
  "no_version_conflicts new_files library_name = []"

text \<open>A store holding one document, and a directory holding the same text with other spacing.\<close>

definition guide_rows :: "reference_row list" where
  "guide_rows = [ref_row ''Lib_guide_1'' ''Guide'' ''hello world'' ''Lib'']"

definition copy_fs :: filesystem where
  "copy_fs = \<lparr> md_files = (\<lambda>root. if root = ''docs'' then Some [(''docs/copy.md'', ''copy.md'')] else None),
               read_text = (\<lambda>p. if p = ''docs/copy.md'' then Some ''hello   world '' else None) \<rparr>"

definition copy_file :: new_file where
  "copy_file = document_entry no_md5 ''docs/copy.md'' ''copy.md'' ''hello   world ''"

definition empty_fs :: filesystem where
  "empty_fs = \<lparr> md_files = (\<lambda>root. None), read_text = (\<lambda>p. None) \<rparr>"

text \<open>A library with one document, \<open>swift\<close>, and a candidate that repeats the word.\<close>

definition swift_rows :: "reference_row list" where
  "swift_rows = [ref_row ''Docs_swift_1'' ''Swift'' ''swift'' ''Docs'']"

definition swift_file :: new_file where
  "swift_file = document_entry no_md5 ''new/swift.md'' ''swift.md'' ''swift swift''"

text \<open>
  A library with one document, and a candidate with four tags, three of them found in the
  document, and no word in common with it.
\<close>

definition ui_rows :: "reference_row list" where
  "ui_rows = [ref_row ''UI_views_1'' ''Views'' ''swiftui-uikit'' ''UI'']"

definition ui_file :: new_file where
  "ui_file = document_entry no_md5 ''new/ui.md'' ''ui.md'' ''swiftui uikit tca''"





section \<open>Full-text search\<close>

text \<open>
  The full-text index is SQLite's FTS5 and is not part of the repository. It enters the
  model as a parameter: an index takes the operand of \<open>MATCH\<close> and the indexed rows and
  returns either the matching rows, best first (\<open>ORDER BY bm25\<close>), or the error of a query
  its grammar rejects. The \<open>snippet\<close> column of a result is not modelled; no modelled
  function reads it.
\<close>

type_synonym 'r index = "string \<Rightarrow> 'r list \<Rightarrow> py_error + 'r list"

record pattern_row =
  p_id :: string
  p_title :: string
  p_content :: string
  p_folder :: string
  p_tags :: string

text \<open>
  A statement \<open>... FROM t_fts JOIN t ... WHERE t_fts MATCH ? ORDER BY bm25(t_fts) LIMIT ?\<close>:
  it raises \<open>OperationalError\<close> when the table does not exist, and otherwise what the
  index raises on the query.
\<close>

definition match_statement :: "'r index \<Rightarrow> 'r list option \<Rightarrow> string \<Rightarrow> nat \<Rightarrow> py_error + 'r list" where
  "match_statement idx tbl query limit =
     (case tbl of
        None \<Rightarrow> Inl OperationalError
      | Some rows \<Rightarrow> (case idx query rows of Inl e \<Rightarrow> Inl e | Inr hits \<Rightarrow> Inr (take limit hits)))"

text \<open>
  \<open>json.loads\<close> on a \<open>tags\<close> column: \<open>json_loads s\<close> is the list of tags when \<open>s\<close> is a
  JSON array of strings and \<open>None\<close> when \<open>json.loads\<close> raises (\<open>JSONDecodeError\<close> is a
  \<open>ValueError\<close>).
\<close>

definition loads_tags :: "(string \<Rightarrow> string list option) \<Rightarrow> string \<Rightarrow> py_error + string list" where
  "loads_tags json_loads s = (case json_loads s of None \<Rightarrow> Inl ValueError | Some ts \<Rightarrow> Inr ts)"

datatype status = pattern_found | reference_found | no_knowledge_found

datatype collection = Patterns | Reference


section \<open>maxwell-hybrid-search.py\<close>

record hybrid_store =
  hs_patterns_fts :: "pattern_row list option"
  hs_reference_fts :: "reference_row list option"
  hs_knowledge :: bool

record hybrid_stats =
  total_queries :: nat
  pattern_hits :: nat
  reference_hits :: nat
  response_times :: "rat list"

record search_result =
  sr_status :: status
  sr_solution :: "string option"
  sr_source :: "string option"
  sr_response_time :: rat
  sr_reasoning :: string
  sr_tags :: "string list option"
  sr_folder_path :: "string option"
  sr_library :: "string option"
  sr_knowledge_type :: string

text \<open>
  The fallback statement of \<open>_search_patterns\<close>:
  \<open>SELECT id, title, content, folder, tags FROM knowledge WHERE knowledge_fts MATCH ? ...\<close>.
  On a store without the table \<open>knowledge\<close> it raises (no such table). On a store with the
  table it raises as well: \<open>knowledge_fts\<close> is not in the \<open>FROM\<close> clause and is not a
  column of \<open>knowledge\<close> (no such column).
\<close>

definition select_knowledge_legacy :: "bool \<Rightarrow> string \<Rightarrow> nat \<Rightarrow> py_error + pattern_row list" where
  "select_knowledge_legacy knowledge_exists query limit =
     (if knowledge_exists then Inl OperationalError else Inl OperationalError)"

definition hybrid_search_patterns ::
  "pattern_row index \<Rightarrow> hybrid_store \<Rightarrow> string \<Rightarrow> nat \<Rightarrow> py_error + pattern_row list" where
  "hybrid_search_patterns idx st query limit =
     (case match_statement idx (hs_patterns_fts st) query limit of
        Inr results \<Rightarrow> Inr results
      | Inl e \<Rightarrow> (if e = OperationalError
                  then select_knowledge_legacy (hs_knowledge st) query limit
                  else Inl e))"

definition hybrid_search_reference ::
  "reference_row index \<Rightarrow> hybrid_store \<Rightarrow> string \<Rightarrow> nat \<Rightarrow> py_error + reference_row list" where
  "hybrid_search_reference idx st query limit =
     (case match_statement idx (hs_reference_fts st) query limit of
        Inr results \<Rightarrow> Inr results
      | Inl e \<Rightarrow> (if e = OperationalError then Inr [] else Inl e))"

text \<open>
  The strings shown to the user are built by formatting helpers, which are parameters:
  \<open>fmt_pattern_response row tags\<close> for \<open>_format_pattern_response\<close> and so on. Each of them
  parses the row's tags first, so it is applied only once the tags have been parsed.
\<close>

record formatters =
  fmt_pattern_response :: "pattern_row \<Rightarrow> string list \<Rightarrow> string"
  fmt_reference_response :: "reference_row \<Rightarrow> string list \<Rightarrow> string"
  fmt_summary :: "pattern_row \<Rightarrow> string list \<Rightarrow> string"
  fmt_key_points :: "pattern_row \<Rightarrow> string list"
  fmt_code_examples :: "pattern_row \<Rightarrow> string list"
  fmt_detailed_solution :: "pattern_row \<Rightarrow> string"
  fmt_content_preview :: "string \<Rightarrow> string"

text \<open>
  \<open>search\<close> returns the result or the exception, the statistics as it leaves them, and
  the collections whose index it queried, in order. \<open>rt\<close> is the elapsed time it measures.
\<close>

definition hybrid_search ::
  "pattern_row index \<Rightarrow> reference_row index \<Rightarrow> formatters \<Rightarrow> (string \<Rightarrow> string list option)
     \<Rightarrow> rat \<Rightarrow> hybrid_store \<Rightarrow> hybrid_stats \<Rightarrow> string \<Rightarrow> nat
     \<Rightarrow> (py_error + search_result) \<times> hybrid_stats \<times> collection list" where
  "hybrid_search pidx ridx fmt json_loads rt st stats query limit =
     (let stats1 = stats\<lparr>total_queries := total_queries stats + 1\<rparr>
      in case hybrid_search_patterns pidx st query limit of
           Inl e \<Rightarrow> (Inl e, stats1, [Patterns])
         | Inr pattern_results \<Rightarrow>
             (case pattern_results of
                best # _ \<Rightarrow>
                  (let stats2 = stats1\<lparr>pattern_hits := pattern_hits stats1 + 1,
                                       response_times := response_times stats1 @ [rt]\<rparr>
                   in case loads_tags json_loads (p_tags best) of
                        Inl e \<Rightarrow> (Inl e, stats2, [Patterns])
                      | Inr ts \<Rightarrow>
                          (Inr \<lparr> sr_status = pattern_found,
                                 sr_solution = Some (fmt_pattern_response fmt best ts),
                                 sr_source = Some (p_title best),
                                 sr_response_time = rt,
                                 sr_reasoning = ''Found relevant solution in Maxwell patterns database'',
                                 sr_tags = Some ts,
                                 sr_folder_path = None,
                                 sr_library = None,
                                 sr_knowledge_type = ''pattern'' \<rparr>,
                           stats2, [Patterns]))
              | [] \<Rightarrow>
                  (case hybrid_search_reference ridx st query limit of
                     Inl e \<Rightarrow> (Inl e, stats1, [Patterns, Reference])
                   | Inr reference_results \<Rightarrow>
                       (case reference_results of
                          result # _ \<Rightarrow>
                            (let stats2 = stats1\<lparr>reference_hits := reference_hits stats1 + 1,
                                                 response_times := response_times stats1 @ [rt]\<rparr>
                             in case loads_tags json_loads (r_tags result) of
                                  Inl e \<Rightarrow> (Inl e, stats2, [Patterns, Reference])
                                | Inr ts \<Rightarrow>
                                    (Inr \<lparr> sr_status = reference_found,
                                           sr_solution = Some (fmt_reference_response fmt result ts),
                                           sr_source = Some (r_title result),
                                           sr_response_time = rt,
                                           sr_reasoning = ''Found comprehensive reference in ''
                                                            @ r_library result @ '' documentation'',
                                           sr_tags = Some ts,
                                           sr_folder_path = Some (r_folder_path result),
                                           sr_library = Some (r_library result),
                                           sr_knowledge_type = ''reference'' \<rparr>,
                                     stats2, [Patterns, Reference]))
                        | [] \<Rightarrow>
                            (Inr \<lparr> sr_status = no_knowledge_found,
                                   sr_solution = None,
                                   sr_source = None,
                                   sr_response_time = rt,
                                   sr_reasoning = ''No relevant information found in Maxwell knowledge base'',
                                   sr_tags = None,
                                   sr_folder_path = None,
                                   sr_library = None,
                                   sr_knowledge_type = ''none'' \<rparr>,
                             stats1, [Patterns, Reference])))))"


section \<open>maxwell-token-optimized.py\<close>

record token_store =
  ts_patterns_fts :: "pattern_row list option"
  ts_reference_fts :: "reference_row list option"

record token_result =
  tr_status :: status
  tr_summary :: "string option"
  tr_key_points :: "string list option"
  tr_code_examples :: "string list option"
  tr_solution :: "string option"
  tr_content_preview :: "string option"
  tr_source :: "string option"
  tr_response_time :: rat
  tr_reasoning :: string
  tr_tags :: "string list option"
  tr_library :: "string option"
  tr_folder_path :: "string option"
  tr_knowledge_type :: string
  tr_has_more_details :: "bool option"
  tr_detail_available :: "string list option"

definition token_search_patterns ::
  "pattern_row index \<Rightarrow> token_store \<Rightarrow> string \<Rightarrow> nat \<Rightarrow> py_error + pattern_row list" where
  "token_search_patterns idx st query limit =
     (case match_statement idx (ts_patterns_fts st) query limit of
        Inr results \<Rightarrow> Inr results
      | Inl e \<Rightarrow> (if e = OperationalError then Inr [] else Inl e))"

definition token_search_reference ::
  "reference_row index \<Rightarrow> token_store \<Rightarrow> string \<Rightarrow> nat \<Rightarrow> py_error + reference_row list" where
  "token_search_reference idx st query limit =
     (case match_statement idx (ts_reference_fts st) query limit of
        Inr results \<Rightarrow> Inr results
      | Inl e \<Rightarrow> (if e = OperationalError then Inr [] else Inl e))"

definition no_result :: "rat \<Rightarrow> token_result" where
  "no_result rt =
     \<lparr> tr_status = no_knowledge_found, tr_summary = None, tr_key_points = None,
       tr_code_examples = None, tr_solution = None, tr_content_preview = None,
       tr_source = None, tr_response_time = rt,
       tr_reasoning = ''No relevant information found in knowledge base'',
       tr_tags = None, tr_library = None, tr_folder_path = None,
       tr_knowledge_type = ''none'', tr_has_more_details = Some False,
       tr_detail_available = None \<rparr>"

text \<open>The three \<open>if/elif\<close> branches of step 1; \<open>None\<close> when no branch returns.\<close>

definition pattern_answer ::
  "formatters \<Rightarrow> rat \<Rightarrow> string \<Rightarrow> pattern_row \<Rightarrow> string list \<Rightarrow> token_result option" where
  "pattern_answer fmt rt detail_level best ts =
     (let base = (no_result rt)\<lparr> tr_status := pattern_found,
                                 tr_summary := Some (fmt_summary fmt best ts),
                                 tr_source := Some (p_title best),
                                 tr_tags := Some ts,
                                 tr_knowledge_type := ''pattern'',
                                 tr_has_more_details := None \<rparr>
      in if detail_level = ''summary''
         then Some (base\<lparr> tr_reasoning := ''Found pattern in first-line defense'',
                          tr_has_more_details := Some True,
                          tr_detail_available := Some [''key_points'', ''code_examples'', ''full_pattern''] \<rparr>)
         else if detail_level = ''details''
         then Some (base\<lparr> tr_key_points := Some (fmt_key_points fmt best),
                          tr_reasoning := ''Found pattern with key points'' \<rparr>)
         else if detail_level = ''full''
         then Some (base\<lparr> tr_key_points := Some (fmt_key_points fmt best),
                          tr_code_examples := Some (fmt_code_examples fmt best),
                          tr_solution := Some (fmt_detailed_solution fmt best),
                          tr_reasoning := ''Complete pattern details provided'' \<rparr>)
         else None)"

text \<open>The two branches of step 2. A reference result carries no content, so the preview
  is taken of the empty string.\<close>

definition reference_answer ::
  "formatters \<Rightarrow> rat \<Rightarrow> string \<Rightarrow> reference_row \<Rightarrow> string list \<Rightarrow> token_result option" where
  "reference_answer fmt rt detail_level best ts =
     (let base = (no_result rt)\<lparr> tr_status := reference_found,
                                 tr_summary := Some (r_summary best),
                                 tr_source := Some (r_title best),
                                 tr_reasoning := ''Found '' @ r_library best @ '' reference documentation'',
                                 tr_tags := Some ts,
                                 tr_library := Some (r_library best),
                                 tr_folder_path := Some (r_folder_path best),
                                 tr_knowledge_type := ''reference'',
                                 tr_has_more_details := Some True \<rparr>
      in if detail_level = ''summary''
         then Some (base\<lparr> tr_detail_available := Some [''full_content'', ''section_highlights''] \<rparr>)
         else if detail_level = ''full''
         then Some (base\<lparr> tr_content_preview := Some (fmt_content_preview fmt []),
                          tr_detail_available := Some [''full_content''] \<rparr>)
         else None)"

definition recognised :: "string \<Rightarrow> bool" where
  "recognised detail_level \<longleftrightarrow> detail_level \<in> set [''summary'', ''details'', ''full'']"

text \<open>
  Steps 2 and 3 of \<open>search\<close>. In the branches that return, the tags are parsed while the
  result is built; with a detail level that no branch handles nothing is parsed.
\<close>

definition token_reference_stage ::
  "reference_row index \<Rightarrow> formatters \<Rightarrow> (string \<Rightarrow> string list option) \<Rightarrow> rat \<Rightarrow> token_store
     \<Rightarrow> string \<Rightarrow> string \<Rightarrow> py_error + token_result" where
  "token_reference_stage ridx fmt json_loads rt st query detail_level =
     (case token_search_reference ridx st query 3 of
        Inl e \<Rightarrow> Inl e
      | Inr reference_results \<Rightarrow>
          (case reference_results of
             [] \<Rightarrow> Inr (no_result rt)
           | best # _ \<Rightarrow>
               (if detail_level = ''summary'' \<or> detail_level = ''full''
                then (case loads_tags json_loads (r_tags best) of
                        Inl e \<Rightarrow> Inl e
                      | Inr ts \<Rightarrow>
                          (case reference_answer fmt rt detail_level best ts of
                             Some r \<Rightarrow> Inr r
                           | None \<Rightarrow> Inr (no_result rt)))
                else Inr (no_result rt))))"

definition token_search ::
  "pattern_row index \<Rightarrow> reference_row index \<Rightarrow> formatters \<Rightarrow> (string \<Rightarrow> string list option)
     \<Rightarrow> rat \<Rightarrow> token_store \<Rightarrow> string \<Rightarrow> string
     \<Rightarrow> (py_error + token_result) \<times> collection list" where
  "token_search pidx ridx fmt json_loads rt st query detail_level =
     (case token_search_patterns pidx st query 3 of
        Inl e \<Rightarrow> (Inl e, [Patterns])
      | Inr pattern_results \<Rightarrow>
          (case pattern_results of
             best # _ \<Rightarrow>
               (if recognised detail_level
                then (case loads_tags json_loads (p_tags best) of
                        Inl e \<Rightarrow> (Inl e, [Patterns])
                      | Inr ts \<Rightarrow>
                          (case pattern_answer fmt rt detail_level best ts of
                             Some r \<Rightarrow> (Inr r, [Patterns])
                           | None \<Rightarrow>
                               (token_reference_stage ridx fmt json_loads rt st query detail_level,
                                [Patterns, Reference])))
                else (token_reference_stage ridx fmt json_loads rt st query detail_level,
                      [Patterns, Reference]))
           | [] \<Rightarrow>
               (token_reference_stage ridx fmt json_loads rt st query detail_level,
                [Patterns, Reference])))"


section \<open>maxwell-knowledge-base.py\<close>

text \<open>
  \<open>query.replace('@', ' ').replace(':', ' ').replace('(', ' ').replace(')', ' ').replace('.', ' ')\<close>
\<close>

definition replace_char :: "char \<Rightarrow> char \<Rightarrow> string \<Rightarrow> string" where
  "replace_char old new s = map (\<lambda>c. if c = old then new else c) s"

definition clean_query :: "string \<Rightarrow> string" where
  "clean_query query =
     replace_char CHR ''.'' CHR '' ''
       (replace_char CHR '')'' CHR '' ''
         (replace_char CHR ''('' CHR '' ''
           (replace_char CHR '':'' CHR '' ''
             (replace_char CHR ''@'' CHR '' '' query))))"

record knowledge_row =
  k_id :: string
  k_title :: string
  k_content :: string
  k_folder :: string
  k_tags :: "string option"

record knowledge_hit =
  kh_id :: string
  kh_title :: string
  kh_content :: string
  kh_folder :: string
  kh_tags :: "string list"

text \<open>\<open>json.loads(row[4]) if row[4] else []\<close>: a NULL or empty column gives no tags.\<close>

definition row_tags :: "(string \<Rightarrow> string list option) \<Rightarrow> string option \<Rightarrow> py_error + string list" where
  "row_tags json_loads col =
     (case col of None \<Rightarrow> Inr [] | Some s \<Rightarrow> (if s = [] then Inr [] else loads_tags json_loads s))"

fun knowledge_hits ::
  "(string \<Rightarrow> string list option) \<Rightarrow> knowledge_row list \<Rightarrow> py_error + knowledge_hit list" where
  "knowledge_hits json_loads [] = Inr []"
| "knowledge_hits json_loads (row # rows) =
     (case row_tags json_loads (k_tags row) of
        Inl e \<Rightarrow> Inl e
      | Inr ts \<Rightarrow>
          (case knowledge_hits json_loads rows of
             Inl e \<Rightarrow> Inl e
           | Inr hits \<Rightarrow>
               Inr (\<lparr> kh_id = k_id row, kh_title = k_title row, kh_content = k_content row,
                      kh_folder = k_folder row, kh_tags = ts \<rparr> # hits)))"

text \<open>
  \<open>_search_knowledge\<close>. The constructor has created \<open>knowledge\<close> and \<open>knowledge_fts\<close>, so
  the store is the list of indexed rows. Nothing is caught: what the index raises on the
  cleaned query propagates.
\<close>

definition search_knowledge ::
  "knowledge_row index \<Rightarrow> (string \<Rightarrow> string list option) \<Rightarrow> knowledge_row list \<Rightarrow> string \<Rightarrow> nat
     \<Rightarrow> py_error + knowledge_hit list" where
  "search_knowledge idx json_loads rows query limit =
     (case match_statement idx (Some rows) (clean_query query) limit of
        Inl e \<Rightarrow> Inl e
      | Inr found \<Rightarrow> knowledge_hits json_loads found)"


subsection \<open>solve\_developer\_problem and the query cache\<close>

datatype kb_status = knowledge_found | reasoning_required

text \<open>The four fixed texts of \<open>_reason_about_problem\<close>, by name.\<close>

datatype advice = CompilationAdvice | MemoryAdvice | TcaAdvice | GeneralAdvice

datatype solution = Content string | Advice advice

definition reason_about_problem :: "string \<Rightarrow> advice" where
  "reason_about_problem query =
     (let query_lower = lower query
      in if py_in ''error'' query_lower \<or> py_in ''compilation'' query_lower then CompilationAdvice
         else if py_in ''memory'' query_lower \<or> py_in ''leak'' query_lower then MemoryAdvice
         else if py_in ''tca'' query_lower \<or> py_in ''reducer'' query_lower then TcaAdvice
         else GeneralAdvice)"

record kb_result =
  kr_status :: kb_status
  kr_solution :: solution
  kr_source :: string
  kr_response_time :: rat
  kr_reasoning :: string
  kr_tags :: "string list option"

record kb_stats =
  kb_total_queries :: nat
  kb_hits :: nat
  kb_cache_hits :: nat
  kb_response_times :: "rat list"

type_synonym cache = "(string \<times> kb_result) list"

record kb_state =
  kb_stats :: kb_stats
  kb_cache :: cache

definition cache_limit :: nat where
  "cache_limit = 50"

text \<open>\<open>_cache_result\<close>: \<open>next(iter(self.cache))\<close> is the first key of the dictionary.\<close>

definition cache_result :: "string \<Rightarrow> kb_result \<Rightarrow> cache \<Rightarrow> cache" where
  "cache_result key result c =
     dict_set key result (if length c \<ge> cache_limit then drop 1 c else c)"

text \<open>
  \<open>md5\<close> stands for \<open>hashlib.md5(query.encode()).hexdigest()\<close>; \<open>search_time\<close> and
  \<open>total_time\<close> are the two elapsed times the call measures.
\<close>

definition solve_developer_problem ::
  "knowledge_row index \<Rightarrow> (string \<Rightarrow> string list option) \<Rightarrow> (string \<Rightarrow> string) \<Rightarrow> rat \<Rightarrow> rat
     \<Rightarrow> knowledge_row list \<Rightarrow> kb_state \<Rightarrow> string \<Rightarrow> (py_error + kb_result) \<times> kb_state" where
  "solve_developer_problem idx json_loads md5 search_time total_time rows s query =
     (let stats1 = (kb_stats s)\<lparr>kb_total_queries := kb_total_queries (kb_stats s) + 1\<rparr>;
          cache_key = md5 query
      in case dict_get (kb_cache s) cache_key of
           Some cached_result \<Rightarrow>
             (Inr \<lparr> kr_status = kr_status cached_result,
                    kr_solution = kr_solution cached_result,
                    kr_source = kr_source cached_result,
                    kr_response_time = kr_response_time cached_result,
                    kr_reasoning = kr_reasoning cached_result,
                    kr_tags = None \<rparr>,
              s\<lparr>kb_stats := stats1\<lparr>kb_cache_hits := kb_cache_hits stats1 + 1\<rparr>\<rparr>)
         | None \<Rightarrow>
             (case search_knowledge idx json_loads rows query 5 of
                Inl e \<Rightarrow> (Inl e, s\<lparr>kb_stats := stats1\<rparr>)
              | Inr kb_results \<Rightarrow>
                  (case kb_results of
                     best_match # _ \<Rightarrow>
                       (let result = \<lparr> kr_status = knowledge_found,
                                       kr_solution = Content (kh_content best_match),
                                       kr_source = kh_title best_match,
                                       kr_response_time = search_time,
                                       kr_reasoning = ''Found relevant solution in knowledge base'',
                                       kr_tags = Some (kh_tags best_match) \<rparr>
                        in (Inr result,
                            \<lparr> kb_stats = stats1\<lparr>kb_hits := kb_hits stats1 + 1,
                                                kb_response_times := kb_response_times stats1 @ [total_time]\<rparr>,
                              kb_cache = cache_result cache_key result (kb_cache s) \<rparr>))
                   | [] \<Rightarrow>
                       (let result = \<lparr> kr_status = reasoning_required,
                                       kr_solution = Advice (reason_about_problem query),
                                       kr_source = ''general_reasoning'',
                                       kr_response_time = search_time,
                                       kr_reasoning = ''Applied general development principles and best practices'',
                                       kr_tags = None \<rparr>
                        in (Inr result,
                            \<lparr> kb_stats = stats1\<lparr>kb_response_times := kb_response_times stats1 @ [total_time]\<rparr>,
                              kb_cache = cache_result cache_key result (kb_cache s) \<rparr>)))))"


section \<open>Example indexes and stores\<close>

text \<open>An index for the examples: the rows whose text contains the query, in table order.\<close>

definition contains_index :: "('r \<Rightarrow> string) \<Rightarrow> 'r index" where
  "contains_index text_of query rows = Inr (filter (\<lambda>r. py_in query (text_of r)) rows)"

text \<open>
  Modelled from the spec: the query grammar of the full-text index, which is not part of
  the repository. The spec says that the characters \<open>@\<close>, \<open>:\<close>, parentheses and periods are
  significant to it and cause a query-parse failure; a query with one of them is rejected,
  any other query is answered.
\<close>

definition significant :: "char \<Rightarrow> bool" where
  "significant c \<longleftrightarrow> c \<in> set ''@:().''"

definition strict_index :: "('r \<Rightarrow> string) \<Rightarrow> 'r index" where
  "strict_index text_of query rows =
     (if list_ex significant query then Inl OperationalError else contains_index text_of query rows)"

text \<open>The query of the spec's scenario, \<open>@Dependency(\.client)\<close>.\<close>

definition dependency_query :: string where
  "dependency_query = ''@Dependency('' @ [CHR 0x5C] @ ''.client)''"

text \<open>A store on which nothing has been created yet.\<close>

definition fresh_hybrid_store :: hybrid_store where
  "fresh_hybrid_store = \<lparr> hs_patterns_fts = None, hs_reference_fts = None, hs_knowledge = False \<rparr>"

definition fresh_token_store :: token_store where
  "fresh_token_store = \<lparr> ts_patterns_fts = None, ts_reference_fts = None \<rparr>"

definition swift_pattern :: pattern_row where
  "swift_pattern = \<lparr> p_id = ''p1'', p_title = ''Swift Pattern'', p_content = ''use swift actors'',
                      p_folder = ''Swift'', p_tags = ''swift'' \<rparr>"

definition both_hybrid_store :: hybrid_store where
  "both_hybrid_store = \<lparr> hs_patterns_fts = Some [swift_pattern], hs_reference_fts = Some swift_rows,
                          hs_knowledge = True \<rparr>"

definition both_token_store :: token_store where
  "both_token_store = \<lparr> ts_patterns_fts = Some [swift_pattern], ts_reference_fts = Some swift_rows \<rparr>"

text \<open>A tags parser for the examples: the column holds the one tag itself.\<close>

definition one_tag :: "string \<Rightarrow> string list option" where
  "one_tag s = Some [s]"

definition plain_formatters :: formatters where
  "plain_formatters =
     \<lparr> fmt_pattern_response = (\<lambda>row ts. p_title row),
       fmt_reference_response = (\<lambda>row ts. r_title row),
       fmt_summary = (\<lambda>row ts. p_title row),
       fmt_key_points = (\<lambda>row. []),
       fmt_code_examples = (\<lambda>row. []),
       fmt_detailed_solution = (\<lambda>row. p_title row),
       fmt_content_preview = (\<lambda>s. s) \<rparr>"

definition zero_stats :: hybrid_stats where
  "zero_stats = \<lparr> total_queries = 0, pattern_hits = 0, reference_hits = 0, response_times = [] \<rparr>"

definition swift_knowledge :: knowledge_row where
  "swift_knowledge = \<lparr> k_id = ''swift.md'', k_title = ''Swift'', k_content = ''swift actors'',
                        k_folder = ''general'', k_tags = Some ''swift'' \<rparr>"

definition kb_init :: kb_state where
  "kb_init = \<lparr> kb_stats = \<lparr> kb_total_queries = 0, kb_hits = 0, kb_cache_hits = 0, kb_response_times = [] \<rparr>,
               kb_cache = [] \<rparr>"

definition key_of :: "string \<Rightarrow> string" where
  "key_of query = ''md5:'' @ query"

definition swift_answer :: kb_result where
  "swift_answer = \<lparr> kr_status = knowledge_found, kr_solution = Content ''swift actors'',
                     kr_source = ''Swift'', kr_response_time = 1 / 100,
                     kr_reasoning = ''Found relevant solution in knowledge base'',
                     kr_tags = Some [''swift''] \<rparr>"

text \<open>A cache at capacity: fifty entries under the keys of the queries 0 to 49.\<close>

definition full_cache :: cache where
  "full_cache = map (\<lambda>n. (key_of (str_nat n), swift_answer)) [0..<50]"


section \<open>The interpreter process\<close>

text \<open>
  The builtin \<open>hash\<close> of a \<open>str\<close> is salted with a value drawn when the interpreter
  starts, unless the environment variable \<open>PYTHONHASHSEED\<close> fixes it: within one process it
  is a function of the text, and two processes have, in general, two different functions.
  The order in which \<open>list(set(xs))\<close> lists the distinct elements of \<open>xs\<close> follows from
  the same salt. Both are fields of the process that runs a script, and a function that
  calls one of them takes the process as its first argument. \<open>json_dumps\<close> stands for
  \<open>json.dumps\<close> on a list of strings.
\<close>

record process =
  hash :: "string \<Rightarrow> int"
  list_set :: "string list \<Rightarrow> string list"
  json_dumps :: "string list \<Rightarrow> string"

text \<open>\<open>sep.join(xs)\<close>\<close>

fun join :: "string \<Rightarrow> string list \<Rightarrow> string" where
  "join sep [] = []"
| "join sep [x] = x"
| "join sep (x # y # ys) = x @ sep @ join sep (y # ys)"


section \<open>migrate-database.py\<close>

subsection \<open>Relative paths\<close>

text \<open>
  A relative path is its text with \<open>/\<close> between the components, as \<open>str\<close> gives it.
  \<open>path_name\<close> is \<open>Path.name\<close>, \<open>path_stem\<close> is \<open>Path.stem\<close> (the name up to its last
  dot, when that dot is neither the first nor the last character of the name), and
  \<open>path_parent\<close> is \<open>str(Path.parent)\<close>, which is \<open>.\<close> for a path of one component.
\<close>

definition path_name :: "string \<Rightarrow> string" where
  "path_name p = rev (takeWhile (\<lambda>c. c \<noteq> CHR ''/'') (rev p))"

definition path_stem :: "string \<Rightarrow> string" where
  "path_stem p =
     (let name = path_name p;
          k = length (takeWhile (\<lambda>c. c \<noteq> CHR ''.'') (rev name))
      in if CHR ''.'' \<in> set name \<and> 0 < k \<and> k + 1 < length name
         then take (length name - k - 1) name
         else name)"

definition path_parent :: "string \<Rightarrow> string" where
  "path_parent p =
     (case dropWhile (\<lambda>c. c \<noteq> CHR ''/'') (rev p) of
        [] \<Rightarrow> ''.''
      | _ # r \<Rightarrow> rev r)"

subsection \<open>The columns derived from a document\<close>

definition classify_document_type :: "string \<Rightarrow> string \<Rightarrow> string" where
  "classify_document_type folder_path content =
     (let folder_lower = lower folder_path
      in if py_in ''article'' folder_lower \<or> py_in ''articles'' folder_lower then ''article''
         else if py_in ''extension'' folder_lower \<or> py_in ''extensions'' folder_lower
              then ''extension''
         else if py_in ''api'' folder_lower \<or> py_in ''reference'' folder_lower then ''api''
         else if py_in ''tutorial'' folder_lower \<or> py_in ''guide'' folder_lower then ''tutorial''
         else if startswith content ''#''
                 \<and> (\<exists>word \<in> set [''method'', ''function'', ''property'', ''class''].
                        py_in word (lower (take 200 content)))
              then ''api''
         else ''documentation'')"

text \<open>
  The loop of \<open>_generate_summary\<close>: \<open>title\<close> is the title found so far; the loop ends at
  the first line taken as the first paragraph, so the test \<open>not first_paragraph\<close> holds
  whenever it is evaluated. The result is the pair of \<open>title\<close> and \<open>first_paragraph\<close>.
\<close>

fun summary_scan :: "string \<Rightarrow> string list \<Rightarrow> string \<times> string" where
  "summary_scan title [] = (title, [])"
| "summary_scan title (l # ls) =
     (let line = strip l
      in if startswith line ''# '' \<and> title = [] then summary_scan (strip (drop 2 line)) ls
         else if line \<noteq> [] \<and> \<not> startswith line ''#'' \<and> length line > 20
              then (title, if length line > 100 then take 100 line @ ''...'' else line)
         else summary_scan title ls)"

definition generate_summary :: "string \<Rightarrow> string" where
  "generate_summary content =
     (case summary_scan [] (split_lines content) of
        (title, first_paragraph) \<Rightarrow>
          if title \<noteq> [] \<and> first_paragraph \<noteq> [] then title @ '': '' @ first_paragraph
          else if title \<noteq> [] then title
          else if first_paragraph \<noteq> [] then first_paragraph
          else if length content > 80 then take 80 content @ ''...''
          else content)"

text \<open>\<open>_extract_title\<close> of the migrator.\<close>

definition migrator_extract_title :: "string \<Rightarrow> string" where
  "migrator_extract_title content =
     (case filter (\<lambda>line. startswith line ''# '') (map strip (take 10 (split_lines content))) of
        line # _ \<Rightarrow> strip (drop 2 line)
      | [] \<Rightarrow>
          (case split_lines content of
             [] \<Rightarrow> []
           | first # _ \<Rightarrow> if length first > 50 then take 50 first @ ''...'' else first))"

text \<open>
  \<open>_extract_tags\<close> of the migrator: \<open>tag_candidates\<close> is the list \<open>tags\<close> before
  \<open>list(set(tags))\<close> removes the duplicates.
\<close>

definition tag_candidates :: "string \<Rightarrow> string \<Rightarrow> string \<Rightarrow> string list" where
  "tag_candidates content library_name doc_type =
     (let content_lower = lower content
      in [lower library_name, lower doc_type]
         @ (if py_in ''sqlite'' content_lower then [''sqlite''] else [])
         @ (if py_in ''swift'' content_lower then [''swift''] else [])
         @ (if py_in ''database'' content_lower then [''database''] else [])
         @ (if py_in ''query'' content_lower then [''querying''] else [])
         @ (if py_in ''migration'' content_lower then [''migration''] else [])
         @ (if py_in ''sync'' content_lower then [''synchronization''] else [])
         @ (if py_in ''cloudkit'' content_lower then [''cloudkit''] else [])
         @ (if py_in ''grdb'' content_lower then [''grdb''] else [])
         @ (if py_in ''delete'' content_lower then [''deletion''] else [])
         @ (if py_in ''insert'' content_lower then [''insertion''] else [])
         @ (if py_in ''update'' content_lower then [''update''] else [])
         @ (if py_in ''fetch'' content_lower \<or> py_in ''select'' content_lower
            then [''fetching''] else []))"

definition migrator_extract_tags :: "process \<Rightarrow> string \<Rightarrow> string \<Rightarrow> string \<Rightarrow> string list" where
  "migrator_extract_tags py content library_name doc_type =
     list_set py (tag_candidates content library_name doc_type)"

subsection \<open>import\_reference\_documentation\<close>

text \<open>
  The database as the import sees it: the \<open>reference\<close> table, keyed by \<open>id\<close>, and
  whether the \<open>reference_fts\<close> index exists. The rows of the index are not modelled: no
  modelled statement reads them.
\<close>

record migrator_db =
  db_reference :: reference_table
  db_reference_fts :: bool

text \<open>
  \<open>INSERT OR REPLACE INTO reference\<close>: a row with the same \<open>id\<close> is deleted, and the new
  row is added.
\<close>

definition insert_or_replace_reference ::
  "reference_row \<Rightarrow> reference_row list \<Rightarrow> reference_row list" where
  "insert_or_replace_reference row rows = filter (\<lambda>r. r_id r \<noteq> r_id row) rows @ [row]"

definition doc_id :: "process \<Rightarrow> string \<Rightarrow> string \<Rightarrow> string \<Rightarrow> string" where
  "doc_id py library_name md_file relative_path =
     library_name @ ''_'' @ path_stem md_file @ ''_'' @ str_int (hash py relative_path mod 10000)"

text \<open>
  One turn of the loop over the files, on the pair of the database and \<open>imported_count\<close>.
  Every exception raised in the body is caught by the \<open>except\<close> clause, which prints it and
  goes on with the next file: a file that cannot be read, a missing \<open>reference\<close> table, and
  a missing \<open>reference_fts\<close> index, which is reached after the row has been written to
  \<open>reference\<close>.
\<close>

definition import_file ::
  "process \<Rightarrow> filesystem \<Rightarrow> string \<Rightarrow> string \<times> string \<Rightarrow> migrator_db \<times> nat
     \<Rightarrow> migrator_db \<times> nat" where
  "import_file py fs library_name md_file state =
     (case state of (db, imported_count) \<Rightarrow>
        (case read_text fs (fst md_file) of
           None \<Rightarrow> (db, imported_count)
         | Some content \<Rightarrow>
             (let relative_path = snd md_file;
                  folder_path = (if path_parent relative_path \<noteq> ''.''
                                 then path_parent relative_path else ''root'');
                  doc_type = classify_document_type folder_path content;
                  summary = generate_summary content;
                  tags = migrator_extract_tags py content library_name doc_type;
                  row = \<lparr> r_id = doc_id py library_name (fst md_file) relative_path,
                          r_title = migrator_extract_title content,
                          r_content = content,
                          r_folder_path = folder_path,
                          r_doc_type = doc_type,
                          r_library = library_name,
                          r_file_path = relative_path,
                          r_word_count = length (py_split content),
                          r_summary = summary,
                          r_tags = json_dumps py tags \<rparr>
              in case db_reference db of
                   None \<Rightarrow> (db, imported_count)
                 | Some rows \<Rightarrow>
                     (db\<lparr>db_reference := Some (insert_or_replace_reference row rows)\<rparr>,
                      if db_reference_fts db then imported_count + 1 else imported_count))))"

text \<open>
  The result is the value returned, the count that is printed at the end, and the database
  after the commit.
\<close>

definition import_reference_documentation ::
  "process \<Rightarrow> filesystem \<Rightarrow> migrator_db \<Rightarrow> string \<Rightarrow> string \<Rightarrow> bool \<times> nat \<times> migrator_db" where
  "import_reference_documentation py fs db docs_path library_name =
     (case md_files fs docs_path of
        None \<Rightarrow> (False, 0, db)
      | Some files \<Rightarrow>
          (case fold (import_file py fs library_name) files (db, 0) of
             (db', imported_count) \<Rightarrow> (True, imported_count, db')))"

text \<open>\<open>SELECT COUNT(*) FROM reference\<close>, as \<open>get_statistics\<close> reads it.\<close>

definition reference_count :: "migrator_db \<Rightarrow> py_error + nat" where
  "reference_count db =
     (case db_reference db of None \<Rightarrow> Inl OperationalError | Some rows \<Rightarrow> Inr (length rows))"

text \<open>The database that the first of two runs leaves, as the second run finds it.\<close>

definition imported :: "process \<Rightarrow> filesystem \<Rightarrow> migrator_db \<Rightarrow> string \<Rightarrow> string \<Rightarrow> migrator_db" where
  "imported py fs db docs_path library_name =
     snd (snd (import_reference_documentation py fs db docs_path library_name))"

section \<open>synthesize-patterns.py and synthesize-composable-patterns.py\<close>

text \<open>
  A synthesized pattern is a \<open>dict\<close>. The keys that every pattern has are fields; the
  keys that depend on the kind of pattern are kept, in the order of the \<open>dict\<close> display,
  in \<open>sp_extra\<close>.
\<close>

datatype py_value = Str string | StrList "string list"

record synthesized_pattern =
  sp_id :: string
  sp_title :: string
  sp_problem :: string
  sp_solution :: string
  sp_pattern_type :: string
  sp_folder :: string
  sp_tags :: "string list"
  sp_content :: string
  sp_extra :: "(string \<times> py_value) list"
  sp_source_document :: string
  sp_folder_path :: string

text \<open>
  The three calls of the \<open>re\<close> module in \<open>_create_performance_pattern\<close>:
  \<open>findall_numbers\<close> is
  \<open>re.findall(r'\d+(?:\.\d+)?x?\s*(?:times?|faster|slower|ms|seconds?)', content)\<close>,
  \<open>search_problem\<close> is group 1 of
  \<open>re.search(r'(?:problem|issue|challenge)[:\s]*([^.\n]+)', content, re.IGNORECASE)\<close>,
  or \<open>None\<close> without a match, and \<open>search_solution\<close> the same for
  \<open>r'(?:solution|fix|recommendation)[:\s]*([^.\n]+)'\<close>.
\<close>

record re_module =
  findall_numbers :: "string \<Rightarrow> string list"
  search_problem :: "string \<Rightarrow> string option"
  search_solution :: "string \<Rightarrow> string option"

text \<open>
  The loop of \<open>_extract_code_blocks\<close> over the lines, with its two variables; the result
  is what the loop appends to \<open>code_blocks\<close>.
\<close>

fun code_blocks_scan :: "bool \<Rightarrow> string \<Rightarrow> string list \<Rightarrow> string list" where
  "code_blocks_scan in_code_block current_block [] = []"
| "code_blocks_scan in_code_block current_block (line # lines) =
     (if startswith line [CHR 0x60, CHR 0x60, CHR 0x60]
      then (if in_code_block then strip current_block # code_blocks_scan False [] lines
            else code_blocks_scan True current_block lines)
      else if in_code_block
           then code_blocks_scan True (current_block @ line @ [CHR 0x0A]) lines
      else code_blocks_scan False current_block lines)"

definition extract_code_blocks :: "string \<Rightarrow> string list" where
  "extract_code_blocks content = code_blocks_scan False [] (split_lines content)"

text \<open>\<open>_create_performance_pattern\<close> of \<open>synthesize-patterns.py\<close>.\<close>

definition create_performance_pattern ::
  "process \<Rightarrow> re_module \<Rightarrow> string \<Rightarrow> string \<Rightarrow> string \<Rightarrow> synthesized_pattern" where
  "create_performance_pattern py re title content folder_path =
     (let performance_indicators = findall_numbers re content;
          problem = (case search_problem re content of
                       Some found \<Rightarrow> strip found
                     | None \<Rightarrow> ''Performance optimization needed'');
          solution = (case search_solution re content of
                        Some found \<Rightarrow> strip found
                      | None \<Rightarrow> ''Optimize database queries'');
          code_examples = extract_code_blocks content
      in \<lparr> sp_id = ''sqlitedata-perf-'' @ str_int (hash py title mod 10000),
           sp_title = ''Performance Pattern: '' @ title,
           sp_problem = problem,
           sp_solution = solution,
           sp_pattern_type = ''performance'',
           sp_folder = ''SQLiteData/Performance'',
           sp_tags = [''sqlitedata'', ''performance'', ''optimization'', ''database'', ''swift''],
           sp_content = content,
           sp_extra = [(''code_examples'', StrList code_examples),
                       (''performance_indicators'', StrList performance_indicators)],
           sp_source_document = title,
           sp_folder_path = folder_path \<rparr>)"

text \<open>\<open>_create_conceptual_pattern\<close> of \<open>synthesize-composable-patterns.py\<close>.\<close>

definition create_conceptual_pattern ::
  "process \<Rightarrow> string \<Rightarrow> string \<Rightarrow> string \<Rightarrow> synthesized_pattern" where
  "create_conceptual_pattern py title content folder_path =
     (let concepts =
            map strip
              (filter (\<lambda>line. (\<exists>keyword \<in> set [''should'', ''recommend'', ''principle'',
                                                  ''pattern'', ''approach''].
                                  py_in keyword (lower line))
                               \<and> length line > 20 \<and> length line < 150)
                 (split_lines content));
          main_concept =
            (if py_in ''state'' (lower title) then ''State Management''
             else if py_in ''composition'' (lower title) then ''Feature Composition''
             else if py_in ''testing'' (lower title) then ''Testing Strategy''
             else if py_in ''navigation'' (lower title) then ''Navigation Pattern''
             else ''TCA Concept'')
      in \<lparr> sp_id = ''tca-concept-'' @ str_int (hash py title mod 10000),
           sp_title = ''TCA Concept: '' @ title,
           sp_problem = ''Need to understand and apply '' @ main_concept @ '' in TCA'',
           sp_solution = ''Follow '' @ main_concept
                           @ '' principles for consistent TCA implementation'',
           sp_pattern_type = ''tca_concept'',
           sp_folder = ''ComposableArchitecture/'' @ filter (\<lambda>c. c \<noteq> CHR '' '') main_concept,
           sp_tags = [''tca'', ''concept'', ''architecture'', ''composable-architecture'',
                      replace_char CHR '' '' CHR ''-'' (lower main_concept)],
           sp_content = content,
           sp_extra = [(''key_concepts'', StrList (take 5 concepts)),
                       (''main_concept'', Str main_concept)],
           sp_source_document = title,
           sp_folder_path = folder_path \<rparr>)"

subsection \<open>save\_synthesized\_patterns\<close>

text \<open>
  \<open>pattern.get(key)\<close> where the result is used as a condition and as a list: the list
  under the key, and the empty list when the key is missing or the list is empty.
\<close>

definition get_list :: "synthesized_pattern \<Rightarrow> string \<Rightarrow> string list" where
  "get_list pattern key =
     (case dict_get (sp_extra pattern) key of Some (StrList xs) \<Rightarrow> xs | _ \<Rightarrow> [])"

definition bullets :: "string list \<Rightarrow> string" where
  "bullets items = join [CHR 0x0A] (map (\<lambda>item. ''- '' @ item) items)"

text \<open>\<open>_format_pattern_content\<close> of \<open>synthesize-patterns.py\<close>.\<close>

definition format_pattern_content :: "synthesized_pattern \<Rightarrow> string" where
  "format_pattern_content pattern =
     (let nl = [CHR 0x0A];
          fence = [CHR 0x60, CHR 0x60, CHR 0x60];
          content0 = ''# '' @ sp_title pattern @ nl @ nl
                     @ ''## Problem'' @ nl @ sp_problem pattern @ nl @ nl
                     @ ''## Solution'' @ nl @ sp_solution pattern @ nl @ nl
                     @ ''## Pattern Type'' @ nl @ sp_pattern_type pattern @ nl @ nl
                     @ ''## Tags'' @ nl @ join '', '' (sp_tags pattern) @ nl @ nl
                     @ ''## Source Document'' @ nl @ sp_source_document pattern
                     @ '' (Location: '' @ sp_folder_path pattern @ '')'' @ nl @ nl;
          content1 = content0
                     @ (if sp_pattern_type pattern = ''performance''
                           \<and> get_list pattern ''performance_indicators'' \<noteq> []
                        then nl @ ''## Performance Indicators'' @ nl
                             @ join '', '' (get_list pattern ''performance_indicators'') @ nl
                        else []);
          content2 = content1
                     @ (if sp_pattern_type pattern = ''migration''
                           \<and> get_list pattern ''migration_steps'' \<noteq> []
                        then nl @ ''## Migration Steps'' @ nl
                             @ bullets (get_list pattern ''migration_steps'') @ nl
                        else []);
          content3 = content2
                     @ (if sp_pattern_type pattern = ''best_practice''
                           \<and> get_list pattern ''do_list'' \<noteq> []
                        then nl @ ''## Do'' @ [CHR 0x27] @ ''s'' @ nl
                             @ bullets (get_list pattern ''do_list'') @ nl
                        else []);
          content4 = content3
                     @ (if sp_pattern_type pattern = ''best_practice''
                           \<and> get_list pattern ''dont_list'' \<noteq> []
                        then nl @ ''## Don'' @ [CHR 0x27] @ ''ts'' @ nl
                             @ bullets (get_list pattern ''dont_list'') @ nl
                        else []);
          content5 = content4
                     @ (if sp_pattern_type pattern = ''api_usage''
                           \<and> get_list pattern ''functions_used'' \<noteq> []
                        then nl @ ''## Functions Used'' @ nl
                             @ join '', '' (get_list pattern ''functions_used'') @ nl
                        else []);
          content6 = content5
                     @ (if get_list pattern ''code_examples'' \<noteq> []
                        then nl @ ''## Code Examples'' @ nl
                             @ join (nl @ nl)
                                 (map (\<lambda>example. fence @ ''swift'' @ nl @ example @ nl @ fence)
                                    (take 2 (get_list pattern ''code_examples'')))
                             @ nl
                        else [])
      in content6 @ nl @ ''## Original Content'' @ nl @ take 1000 (sp_content pattern)
         @ ''...'' @ nl)"

text \<open>
  A row of the \<open>patterns\<close> table, with the ten columns that the statement of
  \<open>save_synthesized_patterns\<close> writes.
\<close>

record patterns_row =
  pr_id :: string
  pr_title :: string
  pr_content :: string
  pr_folder :: string
  pr_folder_path :: string
  pr_doc_type :: string
  pr_library :: string
  pr_summary :: string
  pr_tags :: string
  pr_word_count :: nat

text \<open>
  The database as the synthesizer sees it: the rows of \<open>patterns\<close>, or \<open>None\<close> when the
  table is missing; whether \<open>id\<close> is a key of the table; and whether the \<open>patterns_fts\<close>
  index exists. The only statement of the repository that creates the table is
  \<open>CREATE TABLE patterns AS SELECT * FROM knowledge\<close> in \<open>migrate-database.py\<close>, which
  copies the columns without the primary key of \<open>knowledge\<close>, so that table has no key.
\<close>

record patterns_db =
  db_patterns :: "patterns_row list option"
  db_patterns_keyed :: bool
  db_patterns_fts :: bool

text \<open>
  \<open>INSERT OR REPLACE INTO patterns\<close>: on a keyed table a row with the same \<open>id\<close> is
  deleted first; on a table without a key there is no conflict and the row is added.
\<close>

definition insert_or_replace_pattern ::
  "bool \<Rightarrow> patterns_row \<Rightarrow> patterns_row list \<Rightarrow> patterns_row list" where
  "insert_or_replace_pattern keyed row rows =
     (if keyed then filter (\<lambda>r. pr_id r \<noteq> pr_id row) rows else rows) @ [row]"

text \<open>
  One turn of the loop of \<open>save_synthesized_patterns\<close>. Nothing catches the error of a
  missing table or index. The library written is that of \<open>synthesize-patterns.py\<close>.
\<close>

definition save_pattern ::
  "process \<Rightarrow> synthesized_pattern \<Rightarrow> patterns_db \<Rightarrow> py_error + patterns_db" where
  "save_pattern py pattern db =
     (let content = format_pattern_content pattern;
          row = \<lparr> pr_id = sp_id pattern,
                  pr_title = sp_title pattern,
                  pr_content = content,
                  pr_folder = sp_folder pattern,
                  pr_folder_path = sp_folder_path pattern,
                  pr_doc_type = ''synthesized_pattern'',
                  pr_library = ''SQLiteData'',
                  pr_summary = sp_problem pattern @ '': '' @ sp_solution pattern,
                  pr_tags = json_dumps py (sp_tags pattern),
                  pr_word_count = length (py_split content) \<rparr>
      in case db_patterns db of
           None \<Rightarrow> Inl OperationalError
         | Some rows \<Rightarrow>
             if db_patterns_fts db
             then Inr (db\<lparr>db_patterns :=
                           Some (insert_or_replace_pattern (db_patterns_keyed db) row rows)\<rparr>)
             else Inl OperationalError)"

text \<open>
  The loop and the commit after it. An error leaves the function before the commit, so
  \<open>Inl\<close> carries no database.
\<close>

fun save_synthesized_patterns ::
  "process \<Rightarrow> synthesized_pattern list \<Rightarrow> patterns_db \<Rightarrow> py_error + patterns_db" where
  "save_synthesized_patterns py [] db = Inr db"
| "save_synthesized_patterns py (pattern # patterns) db =
     (case save_pattern py pattern db of
        Inl e \<Rightarrow> Inl e
      | Inr db' \<Rightarrow> save_synthesized_patterns py patterns db')"

text \<open>The ids in \<open>patterns\<close>, in table order, after a save; no ids when the save raises.\<close>

definition saved_ids :: "py_error + patterns_db \<Rightarrow> string list" where
  "saved_ids result =
     (case result of
        Inl e \<Rightarrow> []
      | Inr db \<Rightarrow> (case db_patterns db of None \<Rightarrow> [] | Some rows \<Rightarrow> map pr_id rows))"

text \<open>A second run on the database that a first run left.\<close>

definition save_again ::
  "process \<Rightarrow> synthesized_pattern list \<Rightarrow> py_error + patterns_db \<Rightarrow> py_error + patterns_db" where
  "save_again py patterns result =
     (case result of Inl e \<Rightarrow> Inl e | Inr db \<Rightarrow> save_synthesized_patterns py patterns db)"


section \<open>Example processes and documents\<close>

text \<open>
  Two processes, as CPython 3.11 on a 64-bit platform runs them with \<open>PYTHONHASHSEED=1\<close>
  and with \<open>PYTHONHASHSEED=2\<close>: the values of \<open>hash\<close> on the three texts that the examples
  hash. The examples call \<open>hash\<close> on no other text. Duplicates are removed keeping the
  last occurrence, and \<open>dumps_plain\<close> is \<open>json.dumps\<close> on strings that need no escape.
\<close>

definition dumps_plain :: "string list \<Rightarrow> string" where
  "dumps_plain xs = ''['' @ join '', '' (map (\<lambda>x. [CHR 0x22] @ x @ [CHR 0x22]) xs) @ '']''"

definition seed_1 :: process where
  "seed_1 = \<lparr> hash = (\<lambda>s. if s = ''a.md'' then - 6743003656383632497
                         else if s = ''Guide: Performance'' then - 7438187314950300326
                         else if s = ''State'' then 4830256014473730263
                         else 0),
              list_set = remdups,
              json_dumps = dumps_plain \<rparr>"

definition seed_2 :: process where
  "seed_2 = \<lparr> hash = (\<lambda>s. if s = ''a.md'' then - 4142921402599978517
                         else if s = ''Guide: Performance'' then - 7468906625764755835
                         else if s = ''State'' then - 4094948232085899604
                         else 0),
              list_set = remdups,
              json_dumps = dumps_plain \<rparr>"

text \<open>A directory \<open>docs\<close> with one file, and a database with an empty \<open>reference\<close> table.\<close>

definition docs_fs :: filesystem where
  "docs_fs = \<lparr> md_files = (\<lambda>root. if root = ''docs'' then Some [(''docs/a.md'', ''a.md'')]
                                  else None),
               read_text = (\<lambda>p. if p = ''docs/a.md'' then Some ''# A'' else None) \<rparr>"

definition empty_reference_db :: migrator_db where
  "empty_reference_db = \<lparr> db_reference = Some [], db_reference_fts = True \<rparr>"

text \<open>
  A section of an article, without a match for the three regular expressions, and an empty
  \<open>patterns\<close> table, with a key on \<open>id\<close> and without one.
\<close>

definition no_matches :: re_module where
  "no_matches = \<lparr> findall_numbers = (\<lambda>content. []),
                  search_problem = (\<lambda>content. None),
                  search_solution = (\<lambda>content. None) \<rparr>"

definition performance_section :: string where
  "performance_section = ''Indexes make the query efficient''"

definition keyed_patterns_db :: patterns_db where
  "keyed_patterns_db = \<lparr> db_patterns = Some [], db_patterns_keyed = True, db_patterns_fts = True \<rparr>"

definition migrated_patterns_db :: patterns_db where
  "migrated_patterns_db =
     \<lparr> db_patterns = Some [], db_patterns_keyed = False, db_patterns_fts = True \<rparr>"

section \<open>Properties of the uniqueness report\<close>










section \<open>The exact-duplicate pass\<close>

lemma unpack3_four: "length row = 4 \<Longrightarrow> unpack3 row = Inl ValueError"
  by (cases row rule: unpack3.cases) auto

lemma match_existing_four:
  "\<forall>item \<in> set d. length (snd item) = 4 \<Longrightarrow>
     match_existing nf n d dups = (dups, if d = [] then None else Some ValueError)"
  by (cases d) (auto simp: unpack3_four)

lemma dict_set_subset: "set (dict_set k v d) \<subseteq> insert (k, v) (set d)"
  by (induction d) (auto split: if_splits)

lemma foldl_dict_rows:
  "\<forall>item \<in> set d. P (snd item) \<Longrightarrow> \<forall>row \<in> set rows. P row \<Longrightarrow>
     \<forall>item \<in> set (foldl (\<lambda>d row. dict_set (f row) row d) d rows). P (snd item)"
proof (induction rows arbitrary: d)
  case Nil
  then show ?case by simp
next
  case (Cons row rows)
  have "\<forall>item \<in> set (dict_set (f row) row d). P (snd item)"
    using Cons.prems dict_set_subset [of "f row" row d] by auto
  then show ?case using Cons by simp
qed

lemma existing_content_dict_four:
  "\<forall>row \<in> set rows. length row = 4 \<Longrightarrow>
     \<forall>item \<in> set (existing_content_dict rows). length (snd item) = 4"
  unfolding existing_content_dict_def
  by (rule foldl_dict_rows) auto

text \<open>
  Every value of the dictionary is a four-column row, so the first unpacking into three
  names raises, before anything has been appended; the handler returns the list as it is.
\<close>

lemma scan_new_files_keeps:
  "(case existing of Inl d \<Rightarrow> \<forall>item \<in> set d. length (snd item) = 4 | Inr s \<Rightarrow> True) \<Longrightarrow>
     fst (scan_new_files fs existing new_files dups) = dups"
proof (induction new_files arbitrary: existing dups)
  case Nil
  then show ?case by simp
next
  case (Cons nf rest)
  show ?case
  proof (cases existing)
    case (Inr s)
    then show ?thesis by (simp split: option.splits)
  next
    case (Inl d)
    with Cons.prems have four: "\<forall>item \<in> set d. length (snd item) = 4" by simp
    show ?thesis
    proof (cases d)
      case Nil
      have "fst (scan_new_files fs (Inl []) rest dups) = dups"
        by (rule Cons.IH) simp
      with Inl Nil show ?thesis
        by (simp add: rebound_def split: option.splits)
    next
      case (Cons item items)
      with Inl four show ?thesis
        by (simp add: match_existing_four split: option.splits)
    qed
  qed
qed

lemma find_exact_duplicates_empty: "find_exact_duplicates fs tbl new_files = []"
proof (cases tbl)
  case None
  then show ?thesis
    by (simp add: find_exact_duplicates_def select_title_content_folder_library_def)
next
  case (Some rows)
  let ?cols = "map (\<lambda>r. [r_title r, r_content r, r_folder_path r, r_library r]) rows"
  have "\<forall>item \<in> set (existing_content_dict ?cols). length (snd item) = 4"
    by (rule existing_content_dict_four) simp
  then have "fst (scan_new_files fs (Inl (existing_content_dict ?cols)) new_files []) = []"
    by (intro scan_new_files_keeps) simp
  with Some show ?thesis
    by (simp add: find_exact_duplicates_def select_title_content_folder_library_def)
qed

lemma get_document_files_copy:
  "get_document_files no_md5 copy_fs ''docs'' = [copy_file]"
  unfolding get_document_files_def copy_fs_def copy_file_def
  by simp

text \<open>
  C4. The claim is that a candidate whose content equals a stored reference record's
  content after whitespace normalisation is reported as an exact duplicate. The pass does
  not report it: the store holds a document with content \<open>hello world\<close>, the directory
  holds one readable file with content \<open>hello   world \<close>, the two are equal after
  normalisation, and \<open>_find_exact_duplicates\<close> returns the empty list.
\<close>

theorem exact_duplicate_not_reported:
  "normalize_ws ''hello   world '' = normalize_ws ''hello world''
   \<and> map r_content guide_rows = [''hello world'']
   \<and> get_document_files no_md5 copy_fs ''docs'' = [copy_file]
   \<and> read_text copy_fs (nf_path copy_file) = Some ''hello   world ''
   \<and> find_exact_duplicates copy_fs (Some guide_rows) [copy_file] = []"
proof -
  have same: "normalize_ws ''hello   world '' = normalize_ws ''hello world''"
    by (simp add: normalize_ws_def strip_def isspace_def)
  have stored: "map r_content guide_rows = [''hello world'']"
    by (simp add: guide_rows_def ref_row_def)
  have readable: "read_text copy_fs (nf_path copy_file) = Some ''hello   world ''"
    by (simp add: copy_fs_def copy_file_def document_entry_def)
  show ?thesis
    using same stored readable get_document_files_copy
      find_exact_duplicates_empty [of copy_fs "Some guide_rows" "[copy_file]"]
    by (simp only:)
qed


section \<open>analyze\_content\<close>

text \<open>A directory that does not exist yields no candidate files, without an exception.\<close>

lemma get_document_files_missing:
  "md_files fs docs_path = None \<Longrightarrow> get_document_files md5 fs docs_path = []"
  by (simp add: get_document_files_def)

text \<open>
  C1. The claim is that \<open>analyze_content\<close> returns a report for every directory path and
  library name and never propagates an exception. The source raises on every call: the
  dictionary display reads the local \<open>analysis\<close> before the assignment binds it, so the
  call ends in \<open>UnboundLocalError\<close> whatever the directory, the store and the library are,
  also when the directory does not exist.
\<close>

theorem analyze_content_raises:
  "analyze_content md5 json_loads find_version_conflicts fs tbl docs_path library_name
     = Inl UnboundLocalError"
  by (simp add: analyze_content_def load_local_def Let_def)

section \<open>Rounding to a float\<close>

text \<open>
  The normal form of a positive rational is unique, so rounding a float returns it:
  \<open>fl\<close> is idempotent.
\<close>

lemma floor_rat_numeral:
  "\<lfloor>(numeral a / numeral b :: rat)\<rfloor> = numeral a div numeral b"
  by (metis floor_divide_of_int_eq of_int_numeral)

lemma pow2_pos: "0 < pow2 e"
  by (simp add: pow2_def)

lemma pow2_powi: "pow2 e = 2 powi e"
  by (simp add: pow2_def power_int_def field_simps)

lemma pow2_Suc: "pow2 (e + 1) = 2 * pow2 e"
  by (simp add: pow2_powi power_int_add)

lemma pow2_pred: "pow2 (e - 1) = pow2 e / 2"
  by (simp add: pow2_powi power_int_diff)

lemma scale_down_inv:
  "scale_down m e = (m', e') \<Longrightarrow>
     m' * pow2 e' = m * pow2 e \<and> m' < 2 ^ 53 \<and> (2 ^ 52 \<le> m \<longrightarrow> 2 ^ 52 \<le> m') \<and> e \<le> e'
     \<and> (0 < m \<longrightarrow> 0 < m')"
proof (induction m e rule: scale_down.induct)
  case (1 m e)
  show ?case
  proof (cases "2 ^ 53 \<le> m")
    case True
    then have "scale_down (m / 2) (e + 1) = (m', e')"
      using "1.prems" by (simp add: scale_down.simps [of m e])
    from "1.IH" [OF True this] True show ?thesis
      by (simp add: pow2_Suc)
  next
    case False
    then show ?thesis
      using "1.prems" by (simp add: scale_down.simps [of m e])
  qed
qed

lemma scale_up_inv:
  "scale_up m e = (m', e') \<Longrightarrow>
     m' * pow2 e' = m * pow2 e \<and> (m < 2 ^ 53 \<longrightarrow> m' < 2 ^ 53) \<and> (2 ^ 52 \<le> m' \<or> e' \<le> - 1074)
     \<and> (- 1074 \<le> e \<longrightarrow> - 1074 \<le> e') \<and> (0 < m \<longrightarrow> 0 < m')"
proof (induction m e rule: scale_up.induct)
  case (1 m e)
  show ?case
  proof (cases "m < 2 ^ 52 \<and> - 1074 < e")
    case True
    then have "scale_up (m * 2) (e - 1) = (m', e')"
      using "1.prems" by (simp add: scale_up.simps [of m e])
    from "1.IH" [OF True this] True show ?thesis
      by (simp add: pow2_pred)
  next
    case False
    then show ?thesis
      using "1.prems" by (auto simp: scale_up.simps [of m e])
  qed
qed


lemma pow2_add: "pow2 (a + b) = pow2 a * pow2 b"
  by (simp add: pow2_powi power_int_add)

lemma pow2_0: "pow2 0 = 1"
  by (simp add: pow2_def)

lemma pow2_ge_2:
  assumes "1 \<le> d"
  shows "2 \<le> pow2 d"
proof -
  have "1 \<le> nat d"
    using assms by simp
  then have "(2::rat) ^ 1 \<le> 2 ^ nat d"
    by (intro power_increasing) simp_all
  then show ?thesis
    using assms by (simp add: pow2_def)
qed

lemma normal_form_less:
  assumes eq: "m1 * pow2 e1 = m2 * pow2 e2"
      and "m1 < 2 ^ 53" and "0 < m2"
      and n2: "2 ^ 52 \<le> m2 \<or> e2 \<le> - 1074"
      and "- 1074 \<le> e1"
  shows "\<not> e1 < e2"
proof
  assume less: "e1 < e2"
  then have m2: "2 ^ 52 \<le> m2"
    using n2 assms(5) by auto
  have "pow2 e2 = pow2 e1 * pow2 (e2 - e1)"
    using pow2_add [of e1 "e2 - e1"] by simp
  then have "m1 * pow2 e1 = (m2 * pow2 (e2 - e1)) * pow2 e1"
    using eq by simp
  then have m1: "m1 = m2 * pow2 (e2 - e1)"
    using pow2_pos [of e1] by simp
  have "2 \<le> pow2 (e2 - e1)"
    using less by (intro pow2_ge_2) simp
  then have "m2 * 2 \<le> m2 * pow2 (e2 - e1)"
    using assms(3) by (intro mult_left_mono) simp_all
  moreover have "(2::rat) ^ 53 \<le> m2 * 2"
    using m2 by simp
  ultimately have "2 ^ 53 \<le> m1"
    using m1 by linarith
  then show False
    using assms(2) by simp
qed

lemma normal_form_unique:
  assumes eq: "m1 * pow2 e1 = m2 * pow2 e2"
      and "0 < m1" and "m1 < 2 ^ 53" and "0 < m2" and "m2 < 2 ^ 53"
      and "2 ^ 52 \<le> m1 \<or> e1 \<le> - 1074" and "2 ^ 52 \<le> m2 \<or> e2 \<le> - 1074"
      and "- 1074 \<le> e1" and "- 1074 \<le> e2"
  shows "m1 = m2 \<and> e1 = e2"
proof -
  have "\<not> e1 < e2"
    using assms by (intro normal_form_less [of m1 e1 m2 e2]) simp_all
  moreover have "\<not> e2 < e1"
    using assms by (intro normal_form_less [of m2 e2 m1 e1]) simp_all
  ultimately have e: "e1 = e2" by simp
  then have "m1 = m2"
    using eq pow2_pos [of e2] by simp
  with e show ?thesis by simp
qed

lemma normalise_exists:
  assumes "0 < x"
  shows "\<exists>m e. normalise x = (m, e)
            \<and> m * pow2 e = x \<and> 0 < m \<and> m < 2 ^ 53 \<and> (2 ^ 52 \<le> m \<or> e \<le> - 1074) \<and> - 1074 \<le> e"
proof -
  obtain m0 e0 where d: "scale_down x 0 = (m0, e0)"
    by (cases "scale_down x 0")
  obtain m e where u: "scale_up m0 e0 = (m, e)"
    by (cases "scale_up m0 e0")
  from scale_down_inv [OF d] assms
  have d': "m0 * pow2 e0 = x" "m0 < 2 ^ 53" "0 \<le> e0" "0 < m0"
    by (simp_all add: pow2_0)
  from scale_up_inv [OF u] d'
  have "m * pow2 e = x \<and> 0 < m \<and> m < 2 ^ 53 \<and> (2 ^ 52 \<le> m \<or> e \<le> - 1074) \<and> - 1074 \<le> e"
    by simp
  then show ?thesis
    using d u by (simp add: normalise_def)
qed

lemma normalise_normal_form:
  assumes "0 < m" and "m < 2 ^ 53" and "2 ^ 52 \<le> m \<or> e \<le> - 1074" and "- 1074 \<le> e"
  shows "normalise (m * pow2 e) = (m, e)"
proof -
  have pos: "0 < m * pow2 e"
    using assms(1) pow2_pos [of e] by simp
  from normalise_exists [OF pos]
  obtain m' e' where r: "normalise (m * pow2 e) = (m', e')"
    and n: "m' * pow2 e' = m * pow2 e" "0 < m'" "m' < 2 ^ 53" "2 ^ 52 \<le> m' \<or> e' \<le> - 1074"
           "- 1074 \<le> e'"
    by blast
  have "m' = m \<and> e' = e"
    using n assms by (intro normal_form_unique) simp_all
  with r show ?thesis by simp
qed

lemma round_half_even_of_int: "round_half_even (of_int n) = n"
  by (simp add: round_half_even_def)

lemma round_half_even_ge: "of_int k \<le> x \<Longrightarrow> k \<le> round_half_even x"
proof -
  assume "of_int k \<le> x"
  then have "k \<le> \<lfloor>x\<rfloor>" by (simp add: le_floor_iff)
  then show ?thesis by (simp add: round_half_even_def Let_def)
qed

lemma round_half_even_le: "x < of_int k \<Longrightarrow> round_half_even x \<le> k"
proof -
  assume "x < of_int k"
  then have "\<lfloor>x\<rfloor> < k" by (simp add: floor_less_iff)
  then show ?thesis by (simp add: round_half_even_def Let_def)
qed

lemma fl_pos:
  assumes "0 < x"
  shows "\<exists>m e. fl x = of_int (round_half_even m) * pow2 e
            \<and> 0 < m \<and> m < 2 ^ 53 \<and> (2 ^ 52 \<le> m \<or> e \<le> - 1074) \<and> - 1074 \<le> e"
proof -
  from normalise_exists [OF assms]
  obtain m e where r: "normalise x = (m, e)"
    and n: "0 < m" "m < 2 ^ 53" "2 ^ 52 \<le> m \<or> e \<le> - 1074" "- 1074 \<le> e"
    by blast
  have "fl x = of_int (round_half_even m) * pow2 e"
    using assms r by (simp add: fl_def)
  with n show ?thesis by blast
qed

lemma positive_facts: "0 < (y::rat) \<Longrightarrow> y \<noteq> 0 \<and> \<bar>y\<bar> = y \<and> sgn y = 1"
  by simp

lemma fl_normal_form:
  assumes "0 < m" and "m < 2 ^ 53" and "2 ^ 52 \<le> m \<or> e \<le> - 1074" and "- 1074 \<le> e"
  shows "fl (m * pow2 e) = of_int (round_half_even m) * pow2 e"
proof -
  have pos: "0 < m * pow2 e"
    using assms(1) pow2_pos [of e] by simp
  then have "m * pow2 e \<noteq> 0" and "\<bar>m * pow2 e\<bar> = m * pow2 e" and "sgn (m * pow2 e) = 1"
    using positive_facts [of "m * pow2 e"] by blast+
  then show ?thesis
    using normalise_normal_form [OF assms] by (simp only: fl_def if_False prod.case mult_1)
qed

lemma fl_0: "fl 0 = 0"
  by (simp add: fl_def)

lemma fl_minus: "fl (- x) = - fl x"
  by (simp add: fl_def sgn_minus split: prod.splits)

lemma fl_fl_pos:
  assumes "0 < x"
  shows "fl (fl x) = fl x"
proof -
  from fl_pos [OF assms]
  obtain m e where v: "fl x = of_int (round_half_even m) * pow2 e"
    and n: "0 < m" "m < 2 ^ 53" "2 ^ 52 \<le> m \<or> e \<le> - 1074" "- 1074 \<le> e"
    by blast
  let ?R = "round_half_even m"
  have lo: "0 \<le> ?R"
    using n(1) round_half_even_ge [of 0 m] by simp
  have hi: "?R \<le> 2 ^ 53"
    using n(2) round_half_even_le [of m "2 ^ 53"] by simp
  consider "?R = 0" | "0 < ?R" "?R < 2 ^ 53" | "?R = 2 ^ 53"
    using lo hi by linarith
  then show ?thesis
  proof cases
    case 1
    then have "fl x = 0"
      using v by simp
    then show ?thesis
      by (simp add: fl_0)
  next
    case 2
    have big: "2 ^ 52 \<le> (of_int ?R :: rat) \<or> e \<le> - 1074"
    proof (cases "2 ^ 52 \<le> m")
      case True
      then have "2 ^ 52 \<le> ?R"
        using round_half_even_ge [of "2 ^ 52" m] by simp
      then have "(of_int (2 ^ 52) :: rat) \<le> of_int ?R"
        by (simp only: of_int_le_iff)
      then show ?thesis by simp
    next
      case False
      then show ?thesis using n(3) by simp
    qed
    have "(of_int ?R :: rat) < of_int (2 ^ 53)"
      using 2(2) by (simp only: of_int_less_iff)
    then have small: "(of_int ?R :: rat) < 2 ^ 53" by simp
    have "fl (of_int ?R * pow2 e) = of_int (round_half_even (of_int ?R)) * pow2 e"
      using 2(1) small big n(4) by (intro fl_normal_form) simp_all
    then show ?thesis
      by (simp add: v round_half_even_of_int)
  next
    case 3
    have "fl ((2 ^ 52) * pow2 (e + 1)) = of_int (round_half_even (2 ^ 52)) * pow2 (e + 1)"
      using n(4) by (intro fl_normal_form) simp_all
    moreover have "round_half_even (2 ^ 52) = 2 ^ 52"
      using round_half_even_of_int [of "2 ^ 52"] by simp
    moreover have "(2 ^ 52) * pow2 (e + 1) = (2 ^ 53 :: rat) * pow2 e"
      by (simp add: pow2_Suc)
    ultimately show ?thesis
      by (simp add: v 3)
  qed
qed

lemma fl_fl: "fl (fl x) = fl x"
proof (cases "0 < x")
  case True
  then show ?thesis by (rule fl_fl_pos)
next
  case False
  show ?thesis
  proof (cases "x = 0")
    case True
    then show ?thesis by (simp add: fl_def)
  next
    case nz: False
    then have "0 < - x" using False by simp
    from fl_fl_pos [OF this] show ?thesis
      by (simp add: fl_minus)
  qed
qed

lemma fadd_0_left: "fadd 0 (fl x) = fl x"
  by (simp add: fadd_def fl_fl)

lemma fadd_0_right: "fadd (fl x) 0 = fl x"
  by (simp add: fadd_def fl_fl)

lemmas fl_eval = fl_def normalise_def scale_down.simps scale_up.simps round_half_even_def
  pow2_def Let_def floor_rat_numeral

text \<open>The literals 0.4, 0.6, 0.3 and 0.7.\<close>

lemma tenths_4: "tenths 4 = 3602879701896397 / 9007199254740992"
  by (simp add: tenths_def fl_eval)

lemma tenths_6: "tenths 6 = 5404319552844595 / 9007199254740992"
  by (simp add: tenths_def fl_eval)

lemma tenths_3: "tenths 3 = 5404319552844595 / 18014398509481984"
  by (simp add: tenths_def fl_eval)

lemma tenths_7: "tenths 7 = 3152519739159347 / 4503599627370496"
  by (simp add: tenths_def fl_eval)

section \<open>The topic-overlap score\<close>

lemma first_occurrences_set: "set (first_occurrences xs) = set xs"
  by (induction xs) auto

lemma fmul_0: "fmul 0 b = 0"
  by (simp add: fmul_def fl_0)

lemma fdiv_0: "fdiv 0 b = 0"
  by (simp add: fdiv_def fl_0)

lemma fadd_0_fmul: "fadd 0 (fmul a b) = fmul a b"
  by (simp add: fmul_def fadd_0_left)

lemma fadd_fmul_0: "fadd (fmul a b) 0 = fmul a b"
  by (simp add: fmul_def fadd_0_right)

lemma fadd_0_0: "fadd 0 0 = 0"
  by (simp add: fadd_def fl_0)

lemma common_words_eq:
  "common_words content = (\<lambda>sample. card (word_set content \<inter> word_set sample))"
  by (intro ext) (simp add: common_words_def)

lemma sample_tags_Nil: "sample_tags [] = {}"
  by (simp add: sample_tags_def)

lemma tag_term:
  assumes "distinct tags"
  shows "(if length tags > 0
          then fadd 0 (fmul (fdiv (of_nat (card (set tags \<inter> sample_tags samples)))
                                  (of_nat (length tags)))
                            (tenths 4))
          else 0)
           = fmul (tag_fraction tags samples) (tenths 4)"
  using assms by (simp add: tag_fraction_def distinct_card fadd_0_fmul fmul_0)

lemma tag_fraction_no_samples: "tag_fraction tags [] = 0"
  by (simp add: tag_fraction_def sample_tags_Nil fdiv_0)

lemma overlap_score_body_amended:
  assumes "distinct tags"
  shows "(case overlap_score_body samples content tags of Inl e \<Rightarrow> 0 | Inr score \<Rightarrow> score)
           = amended_overlap_score samples content tags"
proof (cases "py_split content = []")
  case True
  have "overlap_score_body samples content tags
          = Inr (fmul (tag_fraction tags samples) (tenths 4))"
    using True tag_term [OF assms, of samples]
    by (simp add: overlap_score_body_def Let_def)
  then show ?thesis
    using True by (simp add: amended_overlap_score_def word_term_def fmul_0 fadd_fmul_0)
next
  case words: False
  show ?thesis
  proof (cases "samples = []")
    case True
    have "overlap_score_body [] content tags = Inl ZeroDivisionError"
      using words by (simp add: overlap_score_body_def Let_def)
    then show ?thesis
      using True
      by (simp add: amended_overlap_score_def word_term_def tag_fraction_no_samples fmul_0
            fadd_0_0)
  next
    case False
    have "overlap_score_body samples content tags
          = Inr (fadd (fmul (tag_fraction tags samples) (tenths 4))
                      (fmul (fdiv (fdiv (of_nat (sum_list (map (common_words content) samples)))
                                        (of_nat (length (py_split content))))
                                  (of_nat (length samples)))
                            (tenths 6)))"
      using words False tag_term [OF assms, of samples]
      by (simp add: overlap_score_body_def Let_def common_words_eq)
    then show ?thesis
      using words False by (simp add: amended_overlap_score_def word_term_def)
  qed
qed

lemma calculate_overlap_score_amended:
  "distinct tags \<Longrightarrow>
     calculate_overlap_score (Some rows) content tags lib
       = amended_overlap_score (library_samples rows lib) content tags"
  by (simp add: calculate_overlap_score_def select_samples_def overlap_score_body_amended)


lemma overlap_entries_iff:
  "(\<exists>ov \<in> set (overlap_entries jl tbl libs nf). o_new_file ov = rel \<and> o_existing_library ov = lib)
     \<longleftrightarrow> (nf_relative_path nf = rel \<and> lib \<in> set libs
          \<and> calculate_overlap_score tbl (nf_content_preview nf) (nf_tags nf) lib > tenths 3)"
proof (induction libs)
  case Nil
  then show ?case by (simp add: overlap_entries_def)
next
  case (Cons l libs)
  have step: "overlap_entries jl tbl (l # libs) nf
          = (if calculate_overlap_score tbl (nf_content_preview nf) (nf_tags nf) l > tenths 3
             then [\<lparr> o_new_file = nf_relative_path nf, o_existing_library = l,
                     o_overlap_score = calculate_overlap_score tbl (nf_content_preview nf) (nf_tags nf) l,
                     o_common_tags = find_common_tags jl tbl (nf_tags nf) l \<rparr>]
             else [])
            @ overlap_entries jl tbl libs nf"
    by (simp add: overlap_entries_def Let_def)
  show ?case
    unfolding step using Cons.IH
    by (cases "calculate_overlap_score tbl (nf_content_preview nf) (nf_tags nf) l > tenths 3") auto
qed

lemma concat_map_Bex:
  "(\<exists>y \<in> set (concat (map f xs)). P y) \<longleftrightarrow> (\<exists>x \<in> set xs. \<exists>y \<in> set (f x). P y)"
  by (induction xs) auto

lemma find_topic_overlaps_iff:
  "(\<exists>ov \<in> set (find_topic_overlaps jl (Some rows) new_files lname).
        o_new_file ov = rel \<and> o_existing_library ov = lib)
     \<longleftrightarrow> (\<exists>nf \<in> set new_files. nf_relative_path nf = rel \<and> lib \<in> set (map r_library rows)
          \<and> calculate_overlap_score (Some rows) (nf_content_preview nf) (nf_tags nf) lib
                > tenths 3)"
proof -
  let ?libs = "first_occurrences (map r_library rows)"
  have "find_topic_overlaps jl (Some rows) new_files lname
          = concat (map (overlap_entries jl (Some rows) ?libs) new_files)"
    by (simp add: find_topic_overlaps_def select_distinct_library_def)
  then show ?thesis
    by (simp only: concat_map_Bex overlap_entries_iff first_occurrences_set)
qed

lemma distinct_tech_tags: "distinct tech_tags"
  by code_simp

lemma distinct_extract_tags: "distinct (extract_tags content)"
  unfolding extract_tags_def by (rule distinct_filter) (rule distinct_tech_tags)

text \<open>
  The candidate \<open>swift swift\<close> against the library \<open>Docs\<close>: the operations of the source,
  and the float they give, which is the float 0.7.
\<close>

lemma swift_score_operations:
  "overlap_score_body (library_samples swift_rows ''Docs'') ''swift swift'' [''swift'']
     = Inr (fadd (fadd 0 (fmul (fdiv 1 1) (tenths 4)))
                 (fmul (fdiv (fdiv 1 2) 1) (tenths 6)))"
  by (simp add: swift_rows_def library_samples_def ref_row_def overlap_score_body_def
        sample_tags_def extract_tags_def tech_tags_def lower_def lower_char_def startswith_def
        word_set_def py_split_def isspace_def Let_def)

lemma swift_float_value:
  "fadd (fadd 0 (fmul (fdiv 1 1) (tenths 4))) (fmul (fdiv (fdiv 1 2) 1) (tenths 6))
     = 3152519739159347 / 4503599627370496"
proof -
  have one: "fdiv 1 1 = 1"
    by (simp add: fdiv_def fl_eval)
  have half: "fdiv (fdiv 1 2) 1 = 1 / 2"
    by (simp add: fdiv_def fl_eval)
  have tag: "fadd 0 (fmul 1 (tenths 4)) = 3602879701896397 / 9007199254740992"
    by (simp add: fadd_0_fmul) (simp add: fmul_def tenths_def fl_fl, simp add: fl_eval)
  have word: "fmul (1 / 2) (tenths 6) = 5404319552844595 / 18014398509481984"
    by (simp add: fmul_def tenths_6) (simp add: fl_eval)
  have "fadd (3602879701896397 / 9007199254740992) (5404319552844595 / 18014398509481984)
          = 3152519739159347 / 4503599627370496"
    by (simp add: fadd_def) (simp add: fl_eval)
  then show ?thesis
    by (simp only: one half tag word)
qed

lemma swift_score_value:
  "calculate_overlap_score (Some swift_rows) ''swift swift'' [''swift''] ''Docs''
     = 3152519739159347 / 4503599627370496"
  by (simp add: calculate_overlap_score_def select_samples_def swift_score_operations
        swift_float_value)

lemma swift_claimed_value:
  "claimed_overlap_score (library_samples swift_rows ''Docs'') ''swift swift'' [''swift''] = 1"
  by (simp add: swift_rows_def library_samples_def ref_row_def
        claimed_overlap_score_def fraction_present_def average_def
        sample_tags_def extract_tags_def tech_tags_def lower_def lower_char_def startswith_def
        word_set_def py_split_def isspace_def Let_def)

text \<open>
  C8, as stated, fails where the candidate text repeats a word. The library \<open>Docs\<close> holds
  one document, \<open>swift\<close>; the candidate text is \<open>swift swift\<close> with the tag
  \<open>swift\<close>. Every tag and every word of the candidate is present in the sample, so the
  claim's formula gives 0.4 + 0.6 = 1; the source counts one distinct common word against
  two words and returns the float 0.7, which is \<open>0.4 + 0.6 * (1 / 2)\<close> in float
  arithmetic.
\<close>

theorem overlap_score_differs_from_claim:
  "calculate_overlap_score (Some swift_rows) ''swift swift'' [''swift''] ''Docs''
     = 3152519739159347 / 4503599627370496
   \<and> tenths 7 = 3152519739159347 / 4503599627370496
   \<and> claimed_overlap_score (library_samples swift_rows ''Docs'') ''swift swift'' [''swift''] = 1"
  using tenths_7 swift_claimed_value
  by (simp add: calculate_overlap_score_def select_samples_def swift_score_operations
        swift_float_value)

text \<open>
  C8, amended. For a candidate with pairwise different tags, the score against a library
  is, in float arithmetic, the product of the float 0.4 and the fraction of the
  candidate's tags found among the tags extracted from the library's first five documents,
  plus the product of the float 0.6 and the word term: the number of distinct lower-cased
  candidate words that occur in a document, summed over those documents, divided by the
  candidate's word count with repetition and then by the number of documents. Every
  division, product and sum is rounded to the nearest float. A candidate is reported as a
  topic overlap against a library exactly when that library has a document and the score
  of the candidate's preview and tags against it exceeds the float 0.3.
\<close>

theorem topic_overlap_score_amended:
  assumes "distinct tags"
  shows "calculate_overlap_score (Some rows) content tags lib
           = amended_overlap_score (library_samples rows lib) content tags
         \<and> ((\<exists>ov \<in> set (find_topic_overlaps json_loads (Some rows) new_files library_name).
                 o_new_file ov = rel \<and> o_existing_library ov = lib)
              \<longleftrightarrow> (\<exists>nf \<in> set new_files. nf_relative_path nf = rel
                     \<and> lib \<in> set (map r_library rows)
                     \<and> calculate_overlap_score (Some rows) (nf_content_preview nf) (nf_tags nf) lib
                           > tenths 3))"
  using calculate_overlap_score_amended [OF assms, of rows content lib]
    find_topic_overlaps_iff [of json_loads rows new_files library_name rel lib]
  by (simp only:)

lemma swift_file_fields:
  "nf_relative_path swift_file = ''swift.md''
   \<and> nf_content_preview swift_file = ''swift swift''
   \<and> nf_tags swift_file = [''swift'']"
  by (simp add: swift_file_def document_entry_def content_preview_def extract_tags_def
        tech_tags_def lower_def lower_char_def startswith_def)

lemma swift_library: "map r_library swift_rows = [''Docs'']"
  by (simp add: swift_rows_def ref_row_def)

text \<open>
  A score at the threshold. The candidate \<open>swiftui uikit tca\<close> has four tags, of which
  three are found in the one document of the library \<open>UI\<close>, and no word in common with
  it. The product of the floats 0.75 and 0.4 is the float 0.30000000000000004, which
  exceeds the float 0.3, and the candidate is reported.
\<close>

lemma ui_file_fields:
  "nf_relative_path ui_file = ''ui.md''
   \<and> nf_content_preview ui_file = ''swiftui uikit tca''
   \<and> nf_tags ui_file = [''swift'', ''swiftui'', ''uikit'', ''tca'']"
  by (simp add: ui_file_def document_entry_def content_preview_def extract_tags_def
        tech_tags_def lower_def lower_char_def startswith_def)

lemma ui_library: "map r_library ui_rows = [''UI'']"
  by (simp add: ui_rows_def ref_row_def)

lemma ui_score_operations:
  "overlap_score_body (library_samples ui_rows ''UI'') ''swiftui uikit tca''
       [''swift'', ''swiftui'', ''uikit'', ''tca'']
     = Inr (fadd (fadd 0 (fmul (fdiv 3 4) (tenths 4)))
                 (fmul (fdiv (fdiv 0 3) 1) (tenths 6)))"
  by (simp add: ui_rows_def library_samples_def ref_row_def overlap_score_body_def
        sample_tags_def extract_tags_def tech_tags_def lower_def lower_char_def startswith_def
        word_set_def py_split_def isspace_def Let_def)

lemma ui_float_value:
  "fadd (fadd 0 (fmul (fdiv 3 4) (tenths 4))) (fmul (fdiv (fdiv 0 3) 1) (tenths 6))
     = 1351079888211149 / 4503599627370496"
proof -
  have quarters: "fdiv 3 4 = 3 / 4"
    by (simp add: fdiv_def fl_eval)
  have tag: "fmul (3 / 4) (tenths 4) = 1351079888211149 / 4503599627370496"
    by (simp add: fmul_def tenths_4) (simp add: fl_eval)
  have "fadd (fadd 0 (fmul (fdiv 3 4) (tenths 4))) (fmul (fdiv (fdiv 0 3) 1) (tenths 6))
          = fmul (fdiv 3 4) (tenths 4)"
    by (simp add: fdiv_0 fmul_0 fadd_0_fmul fadd_fmul_0)
  then show ?thesis
    by (simp only: quarters tag)
qed

lemma ui_score_value:
  "calculate_overlap_score (Some ui_rows) ''swiftui uikit tca''
       [''swift'', ''swiftui'', ''uikit'', ''tca''] ''UI''
     = 1351079888211149 / 4503599627370496"
  by (simp add: calculate_overlap_score_def select_samples_def ui_score_operations
        ui_float_value)

theorem topic_overlap_score_amended_witness:
  "distinct [''swift'']
   \<and> calculate_overlap_score (Some swift_rows) ''swift swift'' [''swift''] ''Docs''
       = amended_overlap_score (library_samples swift_rows ''Docs'') ''swift swift'' [''swift'']
   \<and> amended_overlap_score (library_samples swift_rows ''Docs'') ''swift swift'' [''swift'']
       = 3152519739159347 / 4503599627370496
   \<and> (\<exists>ov \<in> set (find_topic_overlaps no_json (Some swift_rows) [swift_file] ''New'').
          o_new_file ov = ''swift.md'' \<and> o_existing_library ov = ''Docs'')
   \<and> distinct [''swift'', ''swiftui'', ''uikit'', ''tca'']
   \<and> amended_overlap_score (library_samples ui_rows ''UI'') ''swiftui uikit tca''
         [''swift'', ''swiftui'', ''uikit'', ''tca'']
       = 1351079888211149 / 4503599627370496
   \<and> tenths 3 = 5404319552844595 / 18014398509481984
   \<and> (\<exists>ov \<in> set (find_topic_overlaps no_json (Some ui_rows) [ui_file] ''New'').
          o_new_file ov = ''ui.md'' \<and> o_existing_library ov = ''UI'')"
proof -
  have d: "distinct [''swift'']" by simp
  note inst = topic_overlap_score_amended [OF d, of swift_rows "''swift swift''" "''Docs''"
               no_json "[swift_file]" "''New''" "''swift.md''"]
  have score: "calculate_overlap_score (Some swift_rows) ''swift swift'' [''swift''] ''Docs''
                 = 3152519739159347 / 4503599627370496"
    by (rule swift_score_value)
  have reported: "\<exists>ov \<in> set (find_topic_overlaps no_json (Some swift_rows) [swift_file] ''New'').
          o_new_file ov = ''swift.md'' \<and> o_existing_library ov = ''Docs''"
    using inst score by (simp add: swift_file_fields swift_library tenths_3)
  have d4: "distinct [''swift'', ''swiftui'', ''uikit'', ''tca'']" by simp
  note inst4 = topic_overlap_score_amended [OF d4, of ui_rows "''swiftui uikit tca''" "''UI''"
               no_json "[ui_file]" "''New''" "''ui.md''"]
  have score4: "calculate_overlap_score (Some ui_rows) ''swiftui uikit tca''
                    [''swift'', ''swiftui'', ''uikit'', ''tca''] ''UI''
                  = 1351079888211149 / 4503599627370496"
    by (rule ui_score_value)
  have reported4: "\<exists>ov \<in> set (find_topic_overlaps no_json (Some ui_rows) [ui_file] ''New'').
          o_new_file ov = ''ui.md'' \<and> o_existing_library ov = ''UI''"
    using inst4 score4 by (simp add: ui_file_fields ui_library tenths_3)
  have a1: "amended_overlap_score (library_samples swift_rows ''Docs'') ''swift swift'' [''swift'']
              = 3152519739159347 / 4503599627370496"
    using inst score by simp
  have a4: "amended_overlap_score (library_samples ui_rows ''UI'') ''swiftui uikit tca''
              [''swift'', ''swiftui'', ''uikit'', ''tca'']
              = 1351079888211149 / 4503599627370496"
    using inst4 score4 by simp
  show ?thesis
    using d d4 inst score reported reported4 a1 a4 tenths_3 by simp
qed

section \<open>Search on a store without tables\<close>

lemma hybrid_search_patterns_no_table:
  "hs_patterns_fts st = None \<Longrightarrow> hybrid_search_patterns pidx st query limit = Inl OperationalError"
  by (simp add: hybrid_search_patterns_def match_statement_def select_knowledge_legacy_def)

text \<open>
  The sibling paths do degrade: the reference search of the hybrid module and both searches
  of the token-optimized module return the empty list when their table is missing.
\<close>

lemma hybrid_search_reference_no_table:
  "hs_reference_fts st = None \<Longrightarrow> hybrid_search_reference ridx st query limit = Inr []"
  by (simp add: hybrid_search_reference_def match_statement_def)

lemma token_search_no_tables:
  "token_search_patterns pidx fresh_token_store query limit = Inr []
   \<and> token_search_reference ridx fresh_token_store query limit = Inr []"
  by (simp add: token_search_patterns_def token_search_reference_def match_statement_def
        fresh_token_store_def)

lemma token_search_fresh_store:
  "token_search pidx ridx fmt json_loads rt fresh_token_store query detail_level
     = (Inr (no_result rt), [Patterns, Reference])"
  by (simp add: token_search_def token_reference_stage_def token_search_no_tables)

text \<open>
  C2. The claim is that a search on a store whose full-text tables do not exist yet gives
  an empty result, so that the hybrid search on an empty store returns
  \<open>no_knowledge_found\<close>. In \<open>maxwell-hybrid-search.py\<close> it does not: on a fresh store the
  pattern statement raises, the handler runs the legacy statement on \<open>knowledge\<close>, which
  does not exist either, and \<open>search\<close> ends in \<open>OperationalError\<close> after counting the query
  and before the reference collection is tried.
\<close>

theorem hybrid_search_fresh_store_raises:
  "hybrid_search pidx ridx fmt json_loads rt fresh_hybrid_store stats query limit
     = (Inl OperationalError, stats\<lparr>total_queries := total_queries stats + 1\<rparr>, [Patterns])"
  by (simp add: hybrid_search_def Let_def hybrid_search_patterns_no_table fresh_hybrid_store_def)


section \<open>Queries with characters of the query grammar\<close>

lemma replace_char_set:
  "old \<noteq> new \<Longrightarrow> old \<notin> set (replace_char old new s)"
  by (auto simp: replace_char_def)

lemma replace_char_keeps:
  "c \<notin> set s \<Longrightarrow> c \<noteq> new \<Longrightarrow> c \<notin> set (replace_char old new s)"
  by (auto simp: replace_char_def)

text \<open>
  \<open>_search_knowledge\<close> passes on a query of the same length in which the five characters
  have become spaces and every other character stands as it was.
\<close>

lemma clean_query_nth:
  "length (clean_query query) = length query
   \<and> (\<forall>i < length query. clean_query query ! i
          = (if significant (query ! i) then CHR '' '' else query ! i))"
  by (auto simp: clean_query_def replace_char_def significant_def)

lemma clean_query_not_significant: "\<not> list_ex significant (clean_query query)"
proof -
  have "\<forall>i < length (clean_query query). \<not> significant (clean_query query ! i)"
    using clean_query_nth [of query] by (auto simp: significant_def)
  then show ?thesis
    by (auto simp: list_ex_iff in_set_conv_nth)
qed

text \<open>The backslash of the scenario's query is not among the five and reaches the index.\<close>

lemma clean_query_dependency:
  "clean_query dependency_query = '' Dependency '' @ [CHR 0x5C] @ '' client ''"
  by (simp add: clean_query_def replace_char_def dependency_query_def)

lemma dependency_query_significant: "list_ex significant dependency_query"
  by (simp add: dependency_query_def significant_def)

text \<open>
  C6. The claim is that a query with characters of the query grammar has them replaced by
  spaces before it reaches the index, so that the search ends without an exception.
  \<open>_search_patterns\<close> of \<open>maxwell-hybrid-search.py\<close> hands the query to the index as it
  is: with an index that rejects such characters, as the spec says the index does, the
  scenario's query \<open>@Dependency(\.client)\<close> is rejected, the handler's legacy statement
  raises, and \<open>search\<close> ends in \<open>OperationalError\<close> on every store.
\<close>

theorem hybrid_search_special_characters_raise:
  "hybrid_search (strict_index p_content) ridx fmt json_loads rt st stats dependency_query limit
     = (Inl OperationalError, stats\<lparr>total_queries := total_queries stats + 1\<rparr>, [Patterns])"
proof -
  have "match_statement (strict_index p_content) (hs_patterns_fts st) dependency_query limit
          = Inl OperationalError"
    using dependency_query_significant
    by (simp add: match_statement_def strict_index_def split: option.splits)
  then have "hybrid_search_patterns (strict_index p_content) st dependency_query limit
          = Inl OperationalError"
    by (simp add: hybrid_search_patterns_def select_knowledge_legacy_def)
  then show ?thesis
    by (simp add: hybrid_search_def Let_def)
qed

text \<open>With the same index \<open>_search_knowledge\<close> does not fail on the query grammar.\<close>

lemma search_knowledge_strict_index:
  "search_knowledge (strict_index k_content) json_loads rows query limit
     = knowledge_hits json_loads
         (take limit (filter (\<lambda>r. py_in (clean_query query) (k_content r)) rows))"
  by (simp add: search_knowledge_def match_statement_def strict_index_def contains_index_def
        clean_query_not_significant)

section \<open>Patterns before reference\<close>

lemma hybrid_pattern_hit:
  assumes "hybrid_search_patterns pidx st query limit = Inr (best # rest)"
  shows "hybrid_search pidx ridx fmt json_loads rt st stats query limit
           = (case loads_tags json_loads (p_tags best) of
                Inl e \<Rightarrow> Inl e
              | Inr ts \<Rightarrow>
                  Inr \<lparr> sr_status = pattern_found,
                        sr_solution = Some (fmt_pattern_response fmt best ts),
                        sr_source = Some (p_title best),
                        sr_response_time = rt,
                        sr_reasoning = ''Found relevant solution in Maxwell patterns database'',
                        sr_tags = Some ts,
                        sr_folder_path = None,
                        sr_library = None,
                        sr_knowledge_type = ''pattern'' \<rparr>,
              stats\<lparr>total_queries := total_queries stats + 1,
                    pattern_hits := pattern_hits stats + 1,
                    response_times := response_times stats @ [rt]\<rparr>,
              [Patterns])"
  using assms by (simp add: hybrid_search_def Let_def split: sum.splits)

lemma hybrid_reference_queried:
  assumes "Reference \<in> set (snd (snd (hybrid_search pidx ridx fmt json_loads rt st stats query limit)))"
  shows "hybrid_search_patterns pidx st query limit = Inr []"
proof (cases "hybrid_search_patterns pidx st query limit")
  case (Inl e)
  with assms show ?thesis by (simp add: hybrid_search_def Let_def)
next
  case (Inr results)
  show ?thesis
  proof (cases results)
    case Nil
    with Inr show ?thesis by simp
  next
    case (Cons best rest)
    with Inr assms hybrid_pattern_hit [of pidx st query limit best rest ridx fmt json_loads rt stats]
    show ?thesis by simp
  qed
qed

lemma pattern_answer_recognised:
  assumes "recognised detail_level"
  shows "\<exists>r. pattern_answer fmt rt detail_level best ts = Some r
             \<and> tr_status r = pattern_found
             \<and> tr_source r = Some (p_title best)
             \<and> tr_summary r = Some (fmt_summary fmt best ts)
             \<and> tr_tags r = Some ts"
  using assms by (auto simp: recognised_def pattern_answer_def Let_def)

lemma token_pattern_hit:
  assumes "token_search_patterns pidx st query 3 = Inr (best # rest)"
      and "recognised detail_level"
  shows "snd (token_search pidx ridx fmt json_loads rt st query detail_level) = [Patterns]"
    and "json_loads (p_tags best) = Some ts \<Longrightarrow>
           \<exists>r. token_search pidx ridx fmt json_loads rt st query detail_level = (Inr r, [Patterns])
               \<and> tr_status r = pattern_found
               \<and> tr_source r = Some (p_title best)
               \<and> tr_summary r = Some (fmt_summary fmt best ts)"
    and "json_loads (p_tags best) = None \<Longrightarrow>
           token_search pidx ridx fmt json_loads rt st query detail_level = (Inl ValueError, [Patterns])"
proof -
  show "json_loads (p_tags best) = Some ts \<Longrightarrow>
           \<exists>r. token_search pidx ridx fmt json_loads rt st query detail_level = (Inr r, [Patterns])
               \<and> tr_status r = pattern_found
               \<and> tr_source r = Some (p_title best)
               \<and> tr_summary r = Some (fmt_summary fmt best ts)"
    using assms pattern_answer_recognised [OF assms(2), of fmt rt best ts]
    by (auto simp: token_search_def loads_tags_def)
  show "json_loads (p_tags best) = None \<Longrightarrow>
           token_search pidx ridx fmt json_loads rt st query detail_level = (Inl ValueError, [Patterns])"
    using assms by (simp add: token_search_def loads_tags_def)
  show "snd (token_search pidx ridx fmt json_loads rt st query detail_level) = [Patterns]"
  proof (cases "json_loads (p_tags best)")
    case None
    then show ?thesis using assms by (simp add: token_search_def loads_tags_def)
  next
    case (Some ts')
    then show ?thesis
      using assms pattern_answer_recognised [OF assms(2), of fmt rt best ts']
      by (auto simp: token_search_def loads_tags_def)
  qed
qed

lemma token_reference_queried:
  assumes "Reference \<in> set (snd (token_search pidx ridx fmt json_loads rt st query detail_level))"
      and "recognised detail_level"
  shows "token_search_patterns pidx st query 3 = Inr []"
proof (cases "token_search_patterns pidx st query 3")
  case (Inl e)
  with assms show ?thesis by (simp add: token_search_def)
next
  case (Inr results)
  show ?thesis
  proof (cases results)
    case Nil
    with Inr show ?thesis by simp
  next
    case (Cons best rest)
    with Inr assms token_pattern_hit(1) [of pidx st query best rest detail_level ridx fmt json_loads rt]
    show ?thesis by simp
  qed
qed

text \<open>
  Precedence of the patterns, under two conditions: the tags of the first pattern result
  are well-formed, and the token-optimized search is called at one of its three detail
  levels, \<open>summary\<close>, \<open>details\<close> and \<open>full\<close>. Then, whenever the pattern search
  returns at least one result, both searches answer from its first result: the status is
  \<open>pattern_found\<close>, the source is the title of the first result and the answer is
  formatted from it, and only the patterns collection has been queried; a result with
  status \<open>reference_found\<close> is impossible. The reference collection is queried only when
  the pattern search has returned the empty list.
\<close>

theorem pattern_hit_takes_precedence:
  "(hybrid_search_patterns pidx st query limit = Inr (best # rest) \<and> json_loads (p_tags best) = Some ts
      \<longrightarrow> (\<exists>r stats'. hybrid_search pidx ridx fmt json_loads rt st stats query limit
                         = (Inr r, stats', [Patterns])
                \<and> sr_status r = pattern_found
                \<and> sr_source r = Some (p_title best)
                \<and> sr_solution r = Some (fmt_pattern_response fmt best ts)))
   \<and> (hybrid_search_patterns pidx st query limit = Inr (best # rest)
      \<longrightarrow> snd (snd (hybrid_search pidx ridx fmt json_loads rt st stats query limit)) = [Patterns]
          \<and> (case fst (hybrid_search pidx ridx fmt json_loads rt st stats query limit) of
                Inl e \<Rightarrow> True | Inr r \<Rightarrow> sr_status r = pattern_found))
   \<and> (Reference \<in> set (snd (snd (hybrid_search pidx ridx fmt json_loads rt st stats query limit)))
      \<longrightarrow> hybrid_search_patterns pidx st query limit = Inr [])
   \<and> (token_search_patterns tidx tst query 3 = Inr (tbest # trest) \<and> json_loads (p_tags tbest) = Some tts
        \<and> recognised detail_level
      \<longrightarrow> (\<exists>r. token_search tidx ridx fmt json_loads rt tst query detail_level = (Inr r, [Patterns])
                \<and> tr_status r = pattern_found
                \<and> tr_source r = Some (p_title tbest)
                \<and> tr_summary r = Some (fmt_summary fmt tbest tts)))
   \<and> (token_search_patterns tidx tst query 3 = Inr (tbest # trest) \<and> recognised detail_level
      \<longrightarrow> snd (token_search tidx ridx fmt json_loads rt tst query detail_level) = [Patterns]
          \<and> (case fst (token_search tidx ridx fmt json_loads rt tst query detail_level) of
                Inl e \<Rightarrow> True | Inr r \<Rightarrow> tr_status r = pattern_found))
   \<and> (Reference \<in> set (snd (token_search tidx ridx fmt json_loads rt tst query detail_level))
        \<and> recognised detail_level
      \<longrightarrow> token_search_patterns tidx tst query 3 = Inr [])"
proof (intro conjI impI)
  assume h: "hybrid_search_patterns pidx st query limit = Inr (best # rest)
             \<and> json_loads (p_tags best) = Some ts"
  then show "\<exists>r stats'. hybrid_search pidx ridx fmt json_loads rt st stats query limit
                         = (Inr r, stats', [Patterns])
                \<and> sr_status r = pattern_found
                \<and> sr_source r = Some (p_title best)
                \<and> sr_solution r = Some (fmt_pattern_response fmt best ts)"
    by (simp add: hybrid_pattern_hit loads_tags_def)
next
  assume h: "hybrid_search_patterns pidx st query limit = Inr (best # rest)"
  show "snd (snd (hybrid_search pidx ridx fmt json_loads rt st stats query limit)) = [Patterns]"
    by (simp add: hybrid_pattern_hit [OF h])
  show "case fst (hybrid_search pidx ridx fmt json_loads rt st stats query limit) of
          Inl e \<Rightarrow> True | Inr r \<Rightarrow> sr_status r = pattern_found"
    by (simp add: hybrid_pattern_hit [OF h] split: sum.splits)
next
  assume "Reference \<in> set (snd (snd (hybrid_search pidx ridx fmt json_loads rt st stats query limit)))"
  then show "hybrid_search_patterns pidx st query limit = Inr []"
    by (rule hybrid_reference_queried)
next
  assume h: "token_search_patterns tidx tst query 3 = Inr (tbest # trest)
             \<and> json_loads (p_tags tbest) = Some tts \<and> recognised detail_level"
  then show "\<exists>r. token_search tidx ridx fmt json_loads rt tst query detail_level = (Inr r, [Patterns])
                \<and> tr_status r = pattern_found
                \<and> tr_source r = Some (p_title tbest)
                \<and> tr_summary r = Some (fmt_summary fmt tbest tts)"
    using token_pattern_hit(2) [of tidx tst query tbest trest detail_level json_loads tts ridx fmt rt]
    by blast
next
  assume h: "token_search_patterns tidx tst query 3 = Inr (tbest # trest) \<and> recognised detail_level"
  then have p: "token_search_patterns tidx tst query 3 = Inr (tbest # trest)"
    and d: "recognised detail_level" by simp_all
  show "snd (token_search tidx ridx fmt json_loads rt tst query detail_level) = [Patterns]"
    by (rule token_pattern_hit(1) [OF p d])
  show "case fst (token_search tidx ridx fmt json_loads rt tst query detail_level) of
          Inl e \<Rightarrow> True | Inr r \<Rightarrow> tr_status r = pattern_found"
  proof (cases "json_loads (p_tags tbest)")
    case None
    then show ?thesis using token_pattern_hit(3) [OF p d] by simp
  next
    case (Some ts')
    then show ?thesis using token_pattern_hit(2) [OF p d, of json_loads ts' ridx fmt rt] by auto
  qed
next
  assume "Reference \<in> set (snd (token_search tidx ridx fmt json_loads rt tst query detail_level))
          \<and> recognised detail_level"
  then show "token_search_patterns tidx tst query 3 = Inr []"
    using token_reference_queried by blast
qed

text \<open>
  A store in which the query \<open>swift\<close> matches a pattern and a reference document: both
  searches answer with the pattern.
\<close>

lemma both_store_matches:
  "hybrid_search_patterns (contains_index p_content) both_hybrid_store ''swift'' 5 = Inr [swift_pattern]
   \<and> hybrid_search_reference (contains_index r_content) both_hybrid_store ''swift'' 5 = Inr swift_rows
   \<and> token_search_patterns (contains_index p_content) both_token_store ''swift'' 3 = Inr [swift_pattern]
   \<and> token_search_reference (contains_index r_content) both_token_store ''swift'' 3 = Inr swift_rows"
  by (simp add: hybrid_search_patterns_def hybrid_search_reference_def token_search_patterns_def
        token_search_reference_def match_statement_def contains_index_def both_hybrid_store_def
        both_token_store_def swift_pattern_def swift_rows_def ref_row_def startswith_def)

theorem pattern_hit_takes_precedence_witness:
  "hybrid_search_patterns (contains_index p_content) both_hybrid_store ''swift'' 5 = Inr [swift_pattern]
   \<and> hybrid_search_reference (contains_index r_content) both_hybrid_store ''swift'' 5 = Inr swift_rows
   \<and> swift_rows \<noteq> []
   \<and> (\<exists>r stats'. hybrid_search (contains_index p_content) (contains_index r_content) plain_formatters
                     one_tag (1 / 100) both_hybrid_store zero_stats ''swift'' 5
                   = (Inr r, stats', [Patterns])
          \<and> sr_status r = pattern_found \<and> sr_source r = Some ''Swift Pattern'')
   \<and> (\<exists>r. token_search (contains_index p_content) (contains_index r_content) plain_formatters
              one_tag (1 / 100) both_token_store ''swift'' ''summary''
            = (Inr r, [Patterns])
          \<and> tr_status r = pattern_found \<and> tr_source r = Some ''Swift Pattern'')"
proof -
  note inst = pattern_hit_takes_precedence
    [of "contains_index p_content" both_hybrid_store "''swift''" 5 swift_pattern "[]" one_tag
        "[''swift'']" "contains_index r_content" plain_formatters "1 / 100" zero_stats
        "contains_index p_content" both_token_store swift_pattern "[]" "[''swift'']" "''summary''"]
  have tags: "one_tag (p_tags swift_pattern) = Some [''swift'']"
    by (simp add: one_tag_def swift_pattern_def)
  have title: "p_title swift_pattern = ''Swift Pattern''"
    by (simp add: swift_pattern_def)
  have level: "recognised ''summary''"
    by (simp add: recognised_def)
  have rows: "swift_rows \<noteq> []"
    by (simp add: swift_rows_def)
  show ?thesis
    using inst both_store_matches tags title level rows by auto
qed

text \<open>
  C3 fails in the token-optimized search at a detail level other than \<open>summary\<close>,
  \<open>details\<close> and \<open>full\<close>; \<open>main\<close> hands the second command-line argument to \<open>search\<close>
  unchecked. The branches under the pattern hit are \<open>if\<close>, \<open>elif\<close>, \<open>elif\<close> without an
  \<open>else\<close>: at the level \<open>verbose\<close> none of them returns, the search goes on to the
  reference collection although the pattern search has returned a result, and, the
  reference branches not handling the level either, it answers \<open>no_knowledge_found\<close>. The
  store is the one in which the query \<open>swift\<close> matches a pattern and a reference document.
\<close>

theorem pattern_hit_lost_at_other_detail_level:
  "token_search_patterns (contains_index p_content) both_token_store ''swift'' 3
     = Inr [swift_pattern]
   \<and> token_search (contains_index p_content) (contains_index r_content) plain_formatters
         one_tag (1 / 100) both_token_store ''swift'' ''verbose''
       = (Inr (no_result (1 / 100)), [Patterns, Reference])
   \<and> tr_status (no_result (1 / 100)) = no_knowledge_found"
  using both_store_matches
  by (simp add: token_search_def token_reference_stage_def recognised_def no_result_def
        swift_rows_def)

section \<open>The query cache\<close>

lemma dict_get_dict_set: "dict_get (dict_set k v d) k = Some v"
  by (induction d) auto

lemma length_dict_set: "length (dict_set k v d) \<le> Suc (length d)"
  by (induction d) auto

lemma dict_set_new: "dict_get d k = None \<Longrightarrow> dict_set k v d = d @ [(k, v)]"
  by (induction d) (auto split: if_splits)

lemma dict_get_drop: "dict_get d k = None \<Longrightarrow> dict_get (drop 1 d) k = None"
  by (cases d) (auto split: if_splits)

lemma cache_result_bound:
  assumes "length c \<le> cache_limit"
  shows "length (cache_result k v c) \<le> cache_limit"
proof (cases "length c \<ge> cache_limit")
  case True
  with assms have "length (drop 1 c) < cache_limit"
    by (simp add: cache_limit_def)
  then show ?thesis
    using True length_dict_set [of k v "drop 1 c"] by (simp add: cache_result_def)
next
  case False
  then show ?thesis
    using length_dict_set [of k v c] by (simp add: cache_result_def)
qed

lemma dict_get_cache_result: "dict_get (cache_result k v c) k = Some v"
  by (simp add: cache_result_def dict_get_dict_set)

text \<open>
  A new key goes to the end of the dictionary; at capacity the first entry, the one
  inserted longest ago, is removed before.
\<close>

lemma cache_result_new:
  assumes "dict_get c k = None" and "length c \<le> cache_limit"
  shows "cache_result k v c = (if length c = cache_limit then drop 1 c else c) @ [(k, v)]"
proof -
  have tail: "dict_get (drop 1 c) k = None"
    using assms(1) by (rule dict_get_drop)
  show ?thesis
  proof (cases "length c = cache_limit")
    case True
    then have "cache_result k v c = dict_set k v (drop 1 c)"
      by (simp add: cache_result_def)
    also have "\<dots> = drop 1 c @ [(k, v)]"
      using tail by (rule dict_set_new)
    finally show ?thesis using True by simp
  next
    case False
    with assms(2) have "cache_result k v c = dict_set k v c"
      by (simp add: cache_result_def)
    also have "\<dots> = c @ [(k, v)]"
      using assms(1) by (rule dict_set_new)
    finally show ?thesis using False by simp
  qed
qed

lemma solve_hit:
  assumes "dict_get (kb_cache s) (kf query) = Some cached"
  shows "solve_developer_problem idx json_loads kf st tt rows s query
           = (Inr \<lparr> kr_status = kr_status cached, kr_solution = kr_solution cached,
                    kr_source = kr_source cached, kr_response_time = kr_response_time cached,
                    kr_reasoning = kr_reasoning cached, kr_tags = None \<rparr>,
              s\<lparr>kb_stats := (kb_stats s)\<lparr>kb_total_queries := kb_total_queries (kb_stats s) + 1,
                                        kb_cache_hits := kb_cache_hits (kb_stats s) + 1\<rparr>\<rparr>)"
  using assms by (simp add: solve_developer_problem_def Let_def)

lemma solve_miss:
  assumes "dict_get (kb_cache s) (kf query) = None"
      and "solve_developer_problem idx json_loads kf st tt rows s query = (Inr r1, s1)"
  shows "kb_cache s1 = cache_result (kf query) r1 (kb_cache s)"
  using assms
  by (auto simp: solve_developer_problem_def Let_def split: sum.splits list.splits)

text \<open>
  C10, amended. The cache never holds more than 50 entries; a query that is not cached is
  entered at the end, after the first (oldest-inserted) entry has been removed when the
  cache is at capacity; and repeating a query that has just been answered is answered from
  the cache, whatever the index and the store then are, with the status, solution, source,
  response time and reasoning of the first answer. The reply from the cache holds these
  five fields only: the tags of the first answer are not part of it.
\<close>

theorem cache_bounded_fifo_replay:
  assumes first: "solve_developer_problem idx json_loads kf st tt rows s query = (Inr r1, s1)"
      and bound: "length (kb_cache s) \<le> 50"
  shows "length (kb_cache s1) \<le> 50
         \<and> (dict_get (kb_cache s) (kf query) = None
              \<longrightarrow> kb_cache s1
                    = (if length (kb_cache s) = 50 then drop 1 (kb_cache s) else kb_cache s)
                      @ [(kf query, r1)])
         \<and> (\<exists>r2 s2. solve_developer_problem idx' json_loads' kf st' tt' rows' s1 query = (Inr r2, s2)
                \<and> kr_status r2 = kr_status r1
                \<and> kr_solution r2 = kr_solution r1
                \<and> kr_source r2 = kr_source r1
                \<and> kr_response_time r2 = kr_response_time r1
                \<and> kr_reasoning r2 = kr_reasoning r1
                \<and> kr_tags r2 = None
                \<and> kb_cache s2 = kb_cache s1
                \<and> kb_cache_hits (kb_stats s2) = kb_cache_hits (kb_stats s1) + 1)"
proof (cases "dict_get (kb_cache s) (kf query)")
  case (Some cached)
  from first solve_hit [of s kf query cached idx json_loads st tt rows, OF Some]
  have r1: "r1 = \<lparr> kr_status = kr_status cached, kr_solution = kr_solution cached,
                    kr_source = kr_source cached, kr_response_time = kr_response_time cached,
                    kr_reasoning = kr_reasoning cached, kr_tags = None \<rparr>"
    and s1: "kb_cache s1 = kb_cache s"
    by auto
  have again: "dict_get (kb_cache s1) (kf query) = Some cached"
    using Some s1 by simp
  show ?thesis
    using bound s1 r1 Some solve_hit [of s1 kf query _ idx' json_loads' st' tt' rows', OF again]
    by simp
next
  case None
  have c1: "kb_cache s1 = cache_result (kf query) r1 (kb_cache s)"
    by (rule solve_miss [OF None first])
  have lim: "length (kb_cache s) \<le> cache_limit"
    using bound by (simp add: cache_limit_def)
  have b1: "length (kb_cache s1) \<le> 50"
    using cache_result_bound [OF lim, of "kf query" r1] c1 by (simp add: cache_limit_def)
  have fifo: "kb_cache s1
                = (if length (kb_cache s) = 50 then drop 1 (kb_cache s) else kb_cache s)
                  @ [(kf query, r1)]"
    using cache_result_new [OF None lim, of r1] c1 by (simp add: cache_limit_def)
  have again: "dict_get (kb_cache s1) (kf query) = Some r1"
    using c1 by (simp add: dict_get_cache_result)
  show ?thesis
    using b1 fifo solve_hit [of s1 kf query _ idx' json_loads' st' tt' rows', OF again]
    by simp
qed

text \<open>
  One document, asked for on an empty cache: the first answer carries the document's tags,
  the answer to the repeated query does not.
\<close>

lemma first_swift_answer:
  "solve_developer_problem (contains_index k_content) one_tag key_of (1 / 100) (1 / 50)
      [swift_knowledge] (kb_init\<lparr>kb_cache := c\<rparr>) ''swift''
     = (case dict_get c (key_of ''swift'') of
          None \<Rightarrow>
            (Inr swift_answer,
             \<lparr> kb_stats = \<lparr> kb_total_queries = 1, kb_hits = 1, kb_cache_hits = 0,
                            kb_response_times = [1 / 50] \<rparr>,
               kb_cache = cache_result (key_of ''swift'') swift_answer c \<rparr>)
        | Some cached \<Rightarrow>
            (Inr \<lparr> kr_status = kr_status cached, kr_solution = kr_solution cached,
                   kr_source = kr_source cached, kr_response_time = kr_response_time cached,
                   kr_reasoning = kr_reasoning cached, kr_tags = None \<rparr>,
             \<lparr> kb_stats = \<lparr> kb_total_queries = 1, kb_hits = 0, kb_cache_hits = 1,
                            kb_response_times = [] \<rparr>,
               kb_cache = c \<rparr>))"
  by (simp add: solve_developer_problem_def Let_def search_knowledge_def match_statement_def
        contains_index_def clean_query_def replace_char_def swift_knowledge_def startswith_def
        row_tags_def loads_tags_def one_tag_def swift_answer_def kb_init_def
        split: option.splits)

text \<open>
  C10, as stated, fails on the word verbatim: the repeated query is answered without the
  tags of the first answer.
\<close>

theorem cache_hit_drops_tags:
  "fst (solve_developer_problem (contains_index k_content) one_tag key_of (1 / 100) (1 / 50)
          [swift_knowledge] kb_init ''swift'') = Inr swift_answer
   \<and> fst (solve_developer_problem (contains_index k_content) one_tag key_of (3 / 100) (1 / 25)
          [swift_knowledge]
          (snd (solve_developer_problem (contains_index k_content) one_tag key_of (1 / 100) (1 / 50)
                  [swift_knowledge] kb_init ''swift''))
          ''swift'') = Inr (swift_answer\<lparr>kr_tags := None\<rparr>)
   \<and> kr_tags swift_answer = Some [''swift'']
   \<and> swift_answer\<lparr>kr_tags := None\<rparr> \<noteq> swift_answer"
proof -
  have init: "kb_init = kb_init\<lparr>kb_cache := []\<rparr>"
    by (simp add: kb_init_def)
  have one: "solve_developer_problem (contains_index k_content) one_tag key_of (1 / 100) (1 / 50)
          [swift_knowledge] kb_init ''swift''
        = (Inr swift_answer,
           \<lparr> kb_stats = \<lparr> kb_total_queries = 1, kb_hits = 1, kb_cache_hits = 0,
                          kb_response_times = [1 / 50] \<rparr>,
             kb_cache = [(key_of ''swift'', swift_answer)] \<rparr>)"
    by (subst init) (simp add: first_swift_answer cache_result_def cache_limit_def)
  have two: "fst (solve_developer_problem (contains_index k_content) one_tag key_of (3 / 100) (1 / 25)
          [swift_knowledge]
          \<lparr> kb_stats = \<lparr> kb_total_queries = 1, kb_hits = 1, kb_cache_hits = 0,
                          kb_response_times = [1 / 50] \<rparr>,
             kb_cache = [(key_of ''swift'', swift_answer)] \<rparr>
          ''swift'') = Inr (swift_answer\<lparr>kr_tags := None\<rparr>)"
    by (simp add: solve_developer_problem_def Let_def swift_answer_def)
  have tags: "kr_tags swift_answer = Some [''swift'']"
    by (simp add: swift_answer_def)
  then have differ: "swift_answer\<lparr>kr_tags := None\<rparr> \<noteq> swift_answer"
    by (metis kb_result.select_convs(6) kb_result.surjective kb_result.update_convs(6)
          option.distinct(1))
  show ?thesis
    using one two tags differ by simp
qed

text \<open>A cache at capacity: the new entry goes to the end and the first entry leaves.\<close>

lemma str_nat_short:
  assumes "n < 100"
  shows "length (str_nat n) \<le> 2"
proof -
  have "n div 10 < 10"
    using assms by simp
  then show ?thesis
    by (simp add: str_nat.simps [of n] str_nat.simps [of "n div 10"])
qed

lemma numbered_cache_miss:
  "\<forall>n \<in> set ns. n < 100 \<Longrightarrow>
     dict_get (map (\<lambda>n. (key_of (str_nat n), v)) ns) (key_of ''swift'') = None"
proof (induction ns)
  case Nil
  then show ?case by simp
next
  case (Cons n ns)
  then have "length (str_nat n) \<le> 2"
    by (simp add: str_nat_short)
  then have "str_nat n \<noteq> ''swift''"
    by auto
  then show ?case
    using Cons by (simp add: key_of_def)
qed

lemma full_cache_facts:
  "length full_cache = 50 \<and> dict_get full_cache (key_of ''swift'') = None"
proof -
  have "\<forall>n \<in> set [0..<50]. n < (100::nat)" by simp
  then have "dict_get full_cache (key_of ''swift'') = None"
    unfolding full_cache_def by (rule numbered_cache_miss)
  then show ?thesis by (simp add: full_cache_def)
qed

theorem cache_bounded_fifo_replay_witness:
  "length full_cache = 50
   \<and> dict_get full_cache (key_of ''swift'') = None
   \<and> fst (solve_developer_problem (contains_index k_content) one_tag key_of (1 / 100) (1 / 50)
            [swift_knowledge] (kb_init\<lparr>kb_cache := full_cache\<rparr>) ''swift'') = Inr swift_answer
   \<and> kb_cache (snd (solve_developer_problem (contains_index k_content) one_tag key_of (1 / 100) (1 / 50)
            [swift_knowledge] (kb_init\<lparr>kb_cache := full_cache\<rparr>) ''swift''))
       = drop 1 full_cache @ [(key_of ''swift'', swift_answer)]
   \<and> length (kb_cache (snd (solve_developer_problem (contains_index k_content) one_tag key_of
            (1 / 100) (1 / 50) [swift_knowledge] (kb_init\<lparr>kb_cache := full_cache\<rparr>) ''swift''))) \<le> 50
   \<and> (\<exists>r2 s2. solve_developer_problem (\<lambda>q rows. Inl OperationalError) one_tag key_of (3 / 100) (1 / 25) []
                   (snd (solve_developer_problem (contains_index k_content) one_tag key_of
                           (1 / 100) (1 / 50) [swift_knowledge]
                           (kb_init\<lparr>kb_cache := full_cache\<rparr>) ''swift''))
                   ''swift'' = (Inr r2, s2)
          \<and> kr_solution r2 = Content ''swift actors''
          \<and> kr_source r2 = ''Swift''
          \<and> kr_response_time r2 = 1 / 100)"
proof -
  let ?s = "kb_init\<lparr>kb_cache := full_cache\<rparr>"
  let ?s1 = "\<lparr> kb_stats = \<lparr> kb_total_queries = 1, kb_hits = 1, kb_cache_hits = 0,
                             kb_response_times = [1 / 50] \<rparr>,
                kb_cache = cache_result (key_of ''swift'') swift_answer full_cache \<rparr>"
  have first: "solve_developer_problem (contains_index k_content) one_tag key_of (1 / 100) (1 / 50)
                 [swift_knowledge] ?s ''swift'' = (Inr swift_answer, ?s1)"
    using full_cache_facts by (simp add: first_swift_answer)
  have bound: "length (kb_cache ?s) \<le> 50"
    using full_cache_facts by simp
  have fields: "kr_solution swift_answer = Content ''swift actors''
                \<and> kr_source swift_answer = ''Swift'' \<and> kr_response_time swift_answer = 1 / 100"
    by (simp add: swift_answer_def)
  note inst = cache_bounded_fifo_replay [OF first bound,
                of "\<lambda>q rows. Inl OperationalError" one_tag "3 / 100" "1 / 25" "[]"]
  show ?thesis
    using inst full_cache_facts fields first by auto
qed

section \<open>Importing a directory twice\<close>

text \<open>
  Within one process the import is idempotent on a keyed table: the ids of the rows written
  depend on the process, the library and the files only, so the second run replaces what
  the first run wrote.
\<close>

lemma insert_or_replace_reference_ids:
  "r_id ` set (insert_or_replace_reference row rows) = insert (r_id row) (r_id ` set rows)"
  by (auto simp: insert_or_replace_reference_def)

lemma insert_or_replace_reference_distinct:
  "distinct (map r_id rows) \<Longrightarrow> distinct (map r_id (insert_or_replace_reference row rows))"
  by (auto simp: insert_or_replace_reference_def distinct_map_filter)

lemma import_file_ids:
  assumes "db_reference db = Some rows" and "distinct (map r_id rows)"
  shows "\<exists>rows'. db_reference (fst (import_file py fs l f (db, n))) = Some rows'
            \<and> distinct (map r_id rows')
            \<and> set (map r_id rows')
                = set (map r_id rows)
                  \<union> (if read_text fs (fst f) = None then {} else {doc_id py l (fst f) (snd f)})"
proof (cases "read_text fs (fst f)")
  case None
  then show ?thesis
    using assms by (simp add: import_file_def)
next
  case (Some content)
  then show ?thesis
    using assms
    by (simp add: import_file_def Let_def insert_or_replace_reference_ids
          insert_or_replace_reference_distinct)
qed

lemma import_fold_ids:
  assumes "db_reference db = Some rows" and "distinct (map r_id rows)"
  shows "\<exists>rows'. db_reference (fst (fold (import_file py fs l) files (db, n))) = Some rows'
            \<and> distinct (map r_id rows')
            \<and> set (map r_id rows')
                = set (map r_id rows)
                  \<union> (\<lambda>f. doc_id py l (fst f) (snd f)) ` {f \<in> set files. read_text fs (fst f) \<noteq> None}"
  using assms
proof (induction files arbitrary: db rows n)
  case Nil
  then show ?case by simp
next
  case (Cons f files)
  obtain db1 n1 where step: "import_file py fs l f (db, n) = (db1, n1)"
    by (cases "import_file py fs l f (db, n)")
  from import_file_ids [OF Cons.prems, of py fs l f n] step
  obtain rows1 where r1: "db_reference db1 = Some rows1" "distinct (map r_id rows1)"
    and ids1: "set (map r_id rows1)
                 = set (map r_id rows)
                   \<union> (if read_text fs (fst f) = None then {} else {doc_id py l (fst f) (snd f)})"
    by auto
  from Cons.IH [OF r1, of n1]
  obtain rows' where r': "db_reference (fst (fold (import_file py fs l) files (db1, n1))) = Some rows'"
      "distinct (map r_id rows')"
    and ids': "set (map r_id rows')
                 = set (map r_id rows1)
                   \<union> (\<lambda>f. doc_id py l (fst f) (snd f)) ` {f \<in> set files. read_text fs (fst f) \<noteq> None}"
    by auto
  have "set (map r_id rows')
          = set (map r_id rows)
            \<union> (\<lambda>f. doc_id py l (fst f) (snd f))
                ` {g \<in> set (f # files). read_text fs (fst g) \<noteq> None}"
    unfolding ids' ids1 by auto
  then show ?case
    using r' step by simp
qed

lemma reimport_same_process:
  assumes table: "db_reference db = Some rows" and key: "distinct (map r_id rows)"
  shows "reference_count (imported py fs (imported py fs db docs_path l) docs_path l)
           = reference_count (imported py fs db docs_path l)"
proof (cases "md_files fs docs_path")
  case None
  then show ?thesis
    by (simp add: imported_def import_reference_documentation_def)
next
  case (Some files)
  let ?new = "(\<lambda>f. doc_id py l (fst f) (snd f)) ` {f \<in> set files. read_text fs (fst f) \<noteq> None}"
  let ?db1 = "fst (fold (import_file py fs l) files (db, 0))"
  have run1: "imported py fs db docs_path l = ?db1"
    using Some by (simp add: imported_def import_reference_documentation_def split: prod.splits)
  have run2: "imported py fs ?db1 docs_path l = fst (fold (import_file py fs l) files (?db1, 0))"
    using Some by (simp add: imported_def import_reference_documentation_def split: prod.splits)
  from import_fold_ids [OF table key, of py fs l files 0]
  obtain rows1 where r1: "db_reference ?db1 = Some rows1" "distinct (map r_id rows1)"
    and ids1: "set (map r_id rows1) = set (map r_id rows) \<union> ?new"
    by auto
  from import_fold_ids [OF r1, of py fs l files 0]
  obtain rows2 where r2: "db_reference (fst (fold (import_file py fs l) files (?db1, 0))) = Some rows2"
      "distinct (map r_id rows2)"
    and ids2: "set (map r_id rows2) = set (map r_id rows1) \<union> ?new"
    by auto
  have "set (map r_id rows2) = set (map r_id rows1)"
    unfolding ids2 ids1 by auto
  then have "card (set (map r_id rows2)) = card (set (map r_id rows1))"
    by simp
  then have "length rows2 = length rows1"
    using r1(2) r2(2) by (metis distinct_card length_map)
  then show ?thesis
    unfolding run1 run2 using r1(1) r2(1) by (simp add: reference_count_def)
qed

text \<open>The ids that the two processes derive for the file \<open>a.md\<close> of library \<open>Lib\<close>.\<close>

lemma doc_id_seed_1: "doc_id seed_1 ''Lib'' ''docs/a.md'' ''a.md'' = ''Lib_a_7503''"
  by (simp add: doc_id_def path_stem_def path_name_def seed_1_def str_int_def str_nat.simps
        char_of_def bit_Suc_0_iff Let_def)

lemma doc_id_seed_2: "doc_id seed_2 ''Lib'' ''docs/a.md'' ''a.md'' = ''Lib_a_1483''"
  by (simp add: doc_id_def path_stem_def path_name_def seed_2_def str_int_def str_nat.simps
        char_of_def bit_Suc_0_iff Let_def)

lemma path_parent_a: "path_parent ''a.md'' = ''.''"
  by (simp add: path_parent_def)

text \<open>
  C5 fails when the second import runs in a new process, as every use of the script's
  command line does. The id of a record ends in \<open>hash(str(relative_path)) % 10000\<close>, and
  the builtin \<open>hash\<close> of a string differs from one process to the next. The directory
  \<open>docs\<close> holds the one file \<open>a.md\<close>; the import with library name \<open>Lib\<close> into an empty
  \<open>reference\<close> table leaves one record, with id \<open>Lib_a_7503\<close>; the same import in a
  second process writes the id \<open>Lib_a_1483\<close>, replaces nothing, and leaves two records of
  the one file.
\<close>

theorem reimport_in_new_process_duplicates:
  "reference_count (imported seed_1 docs_fs empty_reference_db ''docs'' ''Lib'') = Inr 1
   \<and> reference_count
         (imported seed_2 docs_fs (imported seed_1 docs_fs empty_reference_db ''docs'' ''Lib'')
            ''docs'' ''Lib'') = Inr 2
   \<and> map_option (map r_id)
         (db_reference
            (imported seed_2 docs_fs (imported seed_1 docs_fs empty_reference_db ''docs'' ''Lib'')
               ''docs'' ''Lib'')) = Some [''Lib_a_7503'', ''Lib_a_1483'']
   \<and> map_option (map r_file_path)
         (db_reference
            (imported seed_2 docs_fs (imported seed_1 docs_fs empty_reference_db ''docs'' ''Lib'')
               ''docs'' ''Lib'')) = Some [''a.md'', ''a.md'']"
  by (simp add: imported_def import_reference_documentation_def import_file_def docs_fs_def
        empty_reference_db_def insert_or_replace_reference_def reference_count_def Let_def
        doc_id_seed_1 doc_id_seed_2 path_parent_a)

section \<open>Synthesizing patterns twice\<close>

text \<open>
  Within one process the id is a function of the title: the content, the folder and the
  matches of the regular expressions have no part in it.
\<close>

lemma create_performance_pattern_id:
  "sp_id (create_performance_pattern py re title content folder_path)
     = sp_id (create_performance_pattern py re' title content' folder_path')"
  by (simp add: create_performance_pattern_def Let_def)

lemma create_conceptual_pattern_id:
  "sp_id (create_conceptual_pattern py title content folder_path)
     = sp_id (create_conceptual_pattern py title content' folder_path')"
  by (simp add: create_conceptual_pattern_def Let_def)

text \<open>
  On a keyed table, saving a pattern whose id was saved just before replaces the row; on a
  table without a key every save adds a row.
\<close>

lemma save_pattern_keyed_replaces:
  assumes "db_patterns_keyed db"
      and "save_pattern py p db = Inr db1"
      and "save_pattern py' p' db1 = Inr db2"
      and "sp_id p' = sp_id p"
  shows "map_option length (db_patterns db2) = map_option length (db_patterns db1)"
proof -
  have filter_twice:
    "\<And>i (row :: patterns_row) rows. pr_id row = i \<Longrightarrow>
       filter (\<lambda>r. pr_id r \<noteq> i) (filter (\<lambda>r. pr_id r \<noteq> i) rows @ [row])
         = filter (\<lambda>r. pr_id r \<noteq> i) rows"
    by simp
  show ?thesis
    using assms
    by (auto simp: save_pattern_def Let_def insert_or_replace_pattern_def filter_twice
          split: option.splits if_splits)
qed

lemma save_pattern_unkeyed_adds:
  assumes "\<not> db_patterns_keyed db"
      and "db_patterns db = Some rows"
      and "save_pattern py p db = Inr db1"
  shows "map_option length (db_patterns db1) = Some (length rows + 1)"
  using assms
  by (auto simp: save_pattern_def Let_def insert_or_replace_pattern_def
        split: option.splits if_splits)

text \<open>The ids that the two processes derive for the two titles.\<close>

lemma performance_id_seed_1:
  "sp_id (create_performance_pattern seed_1 re ''Guide: Performance'' content folder_path)
     = ''sqlitedata-perf-9674''"
  by (simp add: create_performance_pattern_def seed_1_def str_int_def str_nat.simps
        char_of_def bit_Suc_0_iff Let_def)

lemma performance_id_seed_2:
  "sp_id (create_performance_pattern seed_2 re ''Guide: Performance'' content folder_path)
     = ''sqlitedata-perf-4165''"
  by (simp add: create_performance_pattern_def seed_2_def str_int_def str_nat.simps
        char_of_def bit_Suc_0_iff Let_def)

lemma conceptual_id_seed_1:
  "sp_id (create_conceptual_pattern seed_1 ''State'' content folder_path) = ''tca-concept-263''"
  by (simp add: create_conceptual_pattern_def seed_1_def str_int_def str_nat.simps
        char_of_def bit_Suc_0_iff Let_def)

lemma conceptual_id_seed_2:
  "sp_id (create_conceptual_pattern seed_2 ''State'' content folder_path) = ''tca-concept-396''"
  by (simp add: create_conceptual_pattern_def seed_2_def str_int_def str_nat.simps
        char_of_def bit_Suc_0_iff Let_def)

text \<open>
  C9 fails when synthesis is run again in a new process, as every use of the scripts'
  command line does. The id ends in \<open>hash(title) % 10000\<close>, and the builtin \<open>hash\<close> of a
  string differs from one process to the next: for the title \<open>Guide: Performance\<close> the
  performance pattern gets the id \<open>sqlitedata-perf-9674\<close> in one process and
  \<open>sqlitedata-perf-4165\<close> in another, and for the title \<open>State\<close> the conceptual pattern
  gets \<open>tca-concept-263\<close> and \<open>tca-concept-396\<close>. Saved to a \<open>patterns\<close> table keyed by
  \<open>id\<close>, the second run adds a second record of the same pattern. On a table without a
  key, which is what \<open>CREATE TABLE patterns AS SELECT\<close> of the migration creates, and
  with the \<open>patterns_fts\<close> index present, a second save adds a record even in the same
  process and with the same id.
\<close>

theorem resynthesis_in_new_process_accumulates:
  "sp_id (create_performance_pattern seed_1 no_matches ''Guide: Performance''
            performance_section ''Articles'') = ''sqlitedata-perf-9674''
   \<and> sp_id (create_performance_pattern seed_2 no_matches ''Guide: Performance''
            performance_section ''Articles'') = ''sqlitedata-perf-4165''
   \<and> sp_id (create_conceptual_pattern seed_1 ''State'' performance_section ''Articles'')
       = ''tca-concept-263''
   \<and> sp_id (create_conceptual_pattern seed_2 ''State'' performance_section ''Articles'')
       = ''tca-concept-396''
   \<and> saved_ids
         (save_synthesized_patterns seed_1
            [create_performance_pattern seed_1 no_matches ''Guide: Performance''
               performance_section ''Articles'']
            keyed_patterns_db) = [''sqlitedata-perf-9674'']
   \<and> saved_ids
         (save_again seed_2
            [create_performance_pattern seed_2 no_matches ''Guide: Performance''
               performance_section ''Articles'']
            (save_synthesized_patterns seed_1
               [create_performance_pattern seed_1 no_matches ''Guide: Performance''
                  performance_section ''Articles'']
               keyed_patterns_db)) = [''sqlitedata-perf-9674'', ''sqlitedata-perf-4165'']
   \<and> saved_ids
         (save_again seed_1
            [create_performance_pattern seed_1 no_matches ''Guide: Performance''
               performance_section ''Articles'']
            (save_synthesized_patterns seed_1
               [create_performance_pattern seed_1 no_matches ''Guide: Performance''
                  performance_section ''Articles'']
               migrated_patterns_db)) = [''sqlitedata-perf-9674'', ''sqlitedata-perf-9674'']"
  by (simp add: performance_id_seed_1 performance_id_seed_2 conceptual_id_seed_1
        conceptual_id_seed_2 save_pattern_def insert_or_replace_pattern_def saved_ids_def
        save_again_def keyed_patterns_db_def migrated_patterns_db_def Let_def)

end
